theory Spec2Isabelle
  imports Complex_Main
begin

section \<open>Python values, exceptions and subscripts\<close>

text \<open>
  The two notebooks \<^verbatim>\<open>examples/transformations.ipynb\<close> and
  \<^verbatim>\<open>examples/van_der_pol_interpolation.ipynb\<close> are linear Python scripts.
  An exception is a value of type \<open>exn\<close>; a computation that may raise returns
  \<open>exn + 'a\<close>, with \<open>Inl\<close> for the raised exception. \<open>LibError n\<close> stands for
  whatever an external library call raises.
\<close>

datatype exn = IndexError | KeyError | NameError | TypeError | AttributeError | LibError nat

definition bindE :: "exn + 'a \<Rightarrow> ('a \<Rightarrow> exn + 'b) \<Rightarrow> exn + 'b" where
  "bindE m g = (case m of Inl e \<Rightarrow> Inl e | Inr v \<Rightarrow> g v)"

text \<open>
  \<open>xs[i]\<close> on a Python list with a literal, non-negative index: out of range raises
  IndexError.
\<close>

definition getitem :: "'a list \<Rightarrow> nat \<Rightarrow> exn + 'a" where
  "getitem xs i = (if i < length xs then Inr (xs ! i) else Inl IndexError)"

text \<open>
  The arithmetic operators on operands that are themselves the results of subscripts:
  the left operand is evaluated first, then the right one. The elements are taken from a
  commutative ring: the callbacks are handed SymPy symbols by
  \<^verbatim>\<open>SymbolicSys.from_callback\<close>, and Python integers by the notebook's own lists.
\<close>

definition negE :: "exn + 'a::comm_ring_1 \<Rightarrow> exn + 'a" where
  "negE a = bindE a (\<lambda>u. Inr (- u))"

definition mulE :: "exn + 'a::comm_ring_1 \<Rightarrow> exn + 'a \<Rightarrow> exn + 'a" where
  "mulE a b = bindE a (\<lambda>u. bindE b (\<lambda>v. Inr (u * v)))"

definition subE :: "exn + 'a::comm_ring_1 \<Rightarrow> exn + 'a \<Rightarrow> exn + 'a" where
  "subE a b = bindE a (\<lambda>u. bindE b (\<lambda>v. Inr (u - v)))"

definition addE :: "exn + 'a::comm_ring_1 \<Rightarrow> exn + 'a \<Rightarrow> exn + 'a" where
  "addE a b = bindE a (\<lambda>u. bindE b (\<lambda>v. Inr (u + v)))"

definition powE :: "exn + 'a::comm_ring_1 \<Rightarrow> nat \<Rightarrow> exn + 'a" where
  "powE a n = bindE a (\<lambda>u. Inr (u ^ n))"

text \<open>A list display \<open>[e1, ..., en]\<close>: the elements are evaluated from left to right.\<close>

fun list_display :: "(exn + 'a) list \<Rightarrow> exn + 'a list" where
  "list_display [] = Inr []"
| "list_display (m # ms) = bindE m (\<lambda>v. bindE (list_display ms) (\<lambda>vs. Inr (v # vs)))"

section \<open>The right-hand-side callbacks\<close>

text \<open>
  \<^verbatim>\<open>f = lambda t, x, k: [-k[0]*x[0], k[0]*x[0] - k[1]*x[1],
                       k[1]*x[1] - k[2]*x[2], k[2]*x[2] - k[3]*x[3]]\<close>
\<close>

definition f :: "'t \<Rightarrow> 'a::comm_ring_1 list \<Rightarrow> 'a list \<Rightarrow> exn + 'a list" where
  "f t x k = list_display
     [mulE (negE (getitem k 0)) (getitem x 0),
      subE (mulE (getitem k 0) (getitem x 0)) (mulE (getitem k 1) (getitem x 1)),
      subE (mulE (getitem k 1) (getitem x 1)) (mulE (getitem k 2) (getitem x 2)),
      subE (mulE (getitem k 2) (getitem x 2)) (mulE (getitem k 3) (getitem x 3))]"

text \<open>
  \<^verbatim>\<open>vdp1 = lambda x, y, p: [y[1], -y[0] + p[0]*y[1]*(1 - y[0]**2)]\<close>
\<close>

definition vdp1 :: "'t \<Rightarrow> 'a::comm_ring_1 list \<Rightarrow> 'a list \<Rightarrow> exn + 'a list" where
  "vdp1 x y p = list_display
     [getitem y 1,
      addE (negE (getitem y 0))
           (mulE (mulE (getitem p 0) (getitem y 1)) (subE (Inr 1) (powE (getitem y 0) 2)))]"

text \<open>
  \<^verbatim>\<open>def f2(t, x, p):
      y0 = p[0]*sp.exp(-p[1]*t)
      return [p[1]*y0 - p[2]*x[0]] + [
          p[i+2]*x[i] - p[i+3]*x[i+1] for i in range(len(x) - 1)
      ]\<close>
  \<^verbatim>\<open>sp.exp\<close> is SymPy's exponential, a function of the library; it is the
  parameter \<open>sp_exp\<close>. \<^verbatim>\<open>range(len(x) - 1)\<close> is empty for an empty \<open>x\<close>, as
  \<open>[0..<length x - 1]\<close> is.
\<close>

definition f2 :: "('a \<Rightarrow> exn + 'a) \<Rightarrow> 'a::comm_ring_1 \<Rightarrow> 'a list \<Rightarrow> 'a list \<Rightarrow> exn + 'a list" where
  "f2 sp_exp t x p =
     bindE (mulE (getitem p 0) (bindE (mulE (negE (getitem p 1)) (Inr t)) sp_exp)) (\<lambda>y0.
     bindE (list_display [subE (mulE (getitem p 1) (Inr y0)) (mulE (getitem p 2) (getitem x 0))]) (\<lambda>first.
     bindE (list_display (map (\<lambda>i. subE (mulE (getitem p (i + 2)) (getitem x i))
                                        (mulE (getitem p (i + 3)) (getitem x (i + 1))))
                              [0..<length x - 1])) (\<lambda>rest.
     Inr (first @ rest))))"

section \<open>The callback f in double precision\<close>

text \<open>
  \<^verbatim>\<open>OdeSys(f)\<close> integrates numerically: the integrator calls \<open>f\<close> on states that are
  NumPy arrays of doubles (IEEE 754 binary64), and every product and every difference in
  \<open>f\<close> is rounded to the nearest double, ties to the even significand. A double has a
  significand of 53 bits: between \<open>2^e\<close> and \<open>2^(e+1)\<close> the doubles are the multiples of
  \<open>2^(e-52)\<close>. Overflow and subnormal numbers are left out: the model is used on numbers
  far from both. Negation is exact.
\<close>

definition round_half_even :: "real \<Rightarrow> int" where
  "round_half_even x =
     (let n = \<lfloor>x\<rfloor>; d = x - of_int n
      in if d < 1 / 2 then n else if 1 / 2 < d then n + 1 else if even n then n else n + 1)"

definition pow2 :: "int \<Rightarrow> real" where
  "pow2 e = (if 0 \<le> e then 2 ^ nat e else 1 / 2 ^ nat (- e))"

definition binary64 :: "real \<Rightarrow> real" where
  "binary64 x =
     (if x = 0 then 0
      else (let q = pow2 (\<lfloor>Transcendental.log 2 \<bar>x\<bar>\<rfloor> - 52)
            in of_int (round_half_even (x / q)) * q))"

definition mulF :: "exn + real \<Rightarrow> exn + real \<Rightarrow> exn + real" where
  "mulF a b = bindE a (\<lambda>u. bindE b (\<lambda>v. Inr (binary64 (u * v))))"

definition subF :: "exn + real \<Rightarrow> exn + real \<Rightarrow> exn + real" where
  "subF a b = bindE a (\<lambda>u. bindE b (\<lambda>v. Inr (binary64 (u - v))))"

text \<open>The lambda \<open>f\<close> again, on doubles.\<close>

definition f_float64 :: "'t \<Rightarrow> real list \<Rightarrow> real list \<Rightarrow> exn + real list" where
  "f_float64 t x k = list_display
     [mulF (negE (getitem k 0)) (getitem x 0),
      subF (mulF (getitem k 0) (getitem x 0)) (mulF (getitem k 1) (getitem x 1)),
      subF (mulF (getitem k 1) (getitem x 1)) (mulF (getitem k 2) (getitem x 2)),
      subF (mulF (getitem k 2) (getitem x 2)) (mulF (getitem k 3) (getitem x 3))]"

text \<open>Python's \<^verbatim>\<open>sum\<close> on doubles: from 0, one rounded addition after the other.\<close>

definition sumF :: "real list \<Rightarrow> real" where
  "sumF xs = foldl (\<lambda>a b. binary64 (a + b)) 0 xs"

section \<open>The notebooks' state and the external libraries\<close>

text \<open>
  The values that the notebooks handle. \<open>ObjV\<close> is an object of an external library
  (a system, an array, a SymPy expression, a figure) of which the notebook knows nothing
  but its identity; \<open>LibV\<close> is a name imported from a library; \<open>FunV\<close> is a function
  that the notebook defines under a name, and \<open>LambdaV\<close> a lambda written where it is
  used, both handed to the library as they are; \<open>ArrayV\<close> is a one-dimensional array
  of numbers; \<open>RefV\<close> is a reference to a dictionary in the heap. A float literal is the
  real number it denotes.
\<close>

datatype val = NoneV | BoolV bool | IntV int | FloatV real | StrV string
  | ListV "val list" | TupleV "val list" | SliceV val val val
  | ArrayV "real list" | FunV string | LambdaV string | LibV string | ObjV nat | RefV nat

type_synonym kwargs = "(string \<times> val) list"

text \<open>
  A call into a library: a function \<open>name(args, **kwargs)\<close>, a method
  \<open>obj.name(args, **kwargs)\<close> (an operator is the method Python dispatches to), an
  attribute read \<open>obj.name\<close>, or an import.
\<close>

datatype call = Func string "val list" kwargs
  | Method val string "val list" kwargs
  | Attr val string
  | Import string

text \<open>
  What has happened so far, in order: the global names bound, the library calls made,
  each with what it returned or raised, and the exceptions that an operation of the
  notebook's own code raised (a name that is not bound, a subscript, a slice, the
  \<^verbatim>\<open>pop\<close> of a key that is absent).
\<close>

datatype event = Bind string | Ext call "exn + val" | Raised exn

text \<open>
  The libraries (pyodesys, NumPy, SymPy, matplotlib) are not part of the notebooks: they
  are a parameter. A call returns or raises depending on the call and on everything that
  happened before. The result has the shape the notebook relies on where it unpacks it:
  one value, a length, the items of an iteration, the pair of \<^verbatim>\<open>plot_result\<close>, and
  the triple of \<^verbatim>\<open>integrate\<close> (output grid, trajectory, diagnostics mapping).
\<close>

record lib =
  ext_val :: "event list \<Rightarrow> call \<Rightarrow> exn + val"
  ext_len :: "event list \<Rightarrow> call \<Rightarrow> exn + nat"
  ext_iter :: "event list \<Rightarrow> call \<Rightarrow> exn + val list"
  ext_pair :: "event list \<Rightarrow> call \<Rightarrow> exn + val \<times> val"
  ext_integrate :: "event list \<Rightarrow> call \<Rightarrow> exn + val \<times> val \<times> (string \<rightharpoonup> val)"

text \<open>
  The state of a running notebook: the trace, the global names, and a heap of
  dictionaries (every diagnostics mapping is a dictionary of its own, mutated in place).
\<close>

record state =
  trace :: "event list"
  globals :: "string \<rightharpoonup> val"
  heap :: "nat \<Rightarrow> string \<rightharpoonup> val"
  next_ref :: nat

type_synonym 'a prog = "state \<Rightarrow> (exn + 'a) \<times> state"

definition ret :: "'a \<Rightarrow> 'a prog" where
  "ret v s = (Inr v, s)"

definition log :: "event \<Rightarrow> state \<Rightarrow> state" where
  "log ev s = s\<lparr>trace := trace s @ [ev]\<rparr>"

definition raise :: "exn \<Rightarrow> 'a prog" where
  "raise e s = (Inl e, log (Raised e) s)"

definition bindS :: "'a prog \<Rightarrow> ('a \<Rightarrow> 'b prog) \<Rightarrow> 'b prog" where
  "bindS m g s = (case m s of (Inl e, s') \<Rightarrow> (Inl e, s') | (Inr v, s') \<Rightarrow> g v s')"

definition seqS :: "'a prog \<Rightarrow> 'b prog \<Rightarrow> 'b prog" where
  "seqS m n = bindS m (\<lambda>_. n)"

text \<open>An operation that returns or raises without a call into a library.\<close>

definition liftE :: "exn + 'a \<Rightarrow> 'a prog" where
  "liftE r = (case r of Inl e \<Rightarrow> raise e | Inr v \<Rightarrow> ret v)"

text \<open>Reading a global name that is not bound raises NameError.\<close>

definition lookup :: "string \<Rightarrow> val prog" where
  "lookup n s = (case globals s n of None \<Rightarrow> raise NameError s | Some v \<Rightarrow> (Inr v, s))"

definition assign :: "string \<Rightarrow> val \<Rightarrow> unit prog" where
  "assign n v s = (Inr (), log (Bind n) (s\<lparr>globals := (globals s)(n \<mapsto> v)\<rparr>))"

definition call_val :: "lib \<Rightarrow> call \<Rightarrow> val prog" where
  "call_val L c s = (let r = ext_val L (trace s) c in (r, log (Ext c r) s))"

definition call_len :: "lib \<Rightarrow> call \<Rightarrow> nat prog" where
  "call_len L c s =
     (let r = ext_len L (trace s) c in (r, log (Ext c (map_sum id (\<lambda>n. IntV (int n)) r)) s))"

definition call_iter :: "lib \<Rightarrow> call \<Rightarrow> val list prog" where
  "call_iter L c s =
     (let r = ext_iter L (trace s) c in (r, log (Ext c (map_sum id ListV r)) s))"

definition call_pair :: "lib \<Rightarrow> call \<Rightarrow> (val \<times> val) prog" where
  "call_pair L c s =
     (let r = ext_pair L (trace s) c
      in (r, log (Ext c (map_sum id (\<lambda>(a, b). TupleV [a, b]) r)) s))"

text \<open>
  Modelled from the spec: \<^verbatim>\<open>integrate\<close>, a method of pyodesys that is not among
  the notebooks. A call receives back output grid, trajectory and diagnostics (spec,
  section 6); the result bundle is created per integration call (section 3). So a call
  that returns gives a triple whose third component is a new dictionary: it is put in the
  heap at a fresh address, and the caller holds the reference.
\<close>

definition call_integrate :: "lib \<Rightarrow> call \<Rightarrow> (val \<times> val \<times> nat) prog" where
  "call_integrate L c s =
     (case ext_integrate L (trace s) c of
        Inl e \<Rightarrow> (Inl e, log (Ext c (Inl e)) s)
      | Inr (xout, yout, info) \<Rightarrow>
          (Inr (xout, yout, next_ref s),
           log (Ext c (Inr (TupleV [xout, yout, RefV (next_ref s)])))
             (s\<lparr>heap := (heap s)(next_ref s := info), next_ref := Suc (next_ref s)\<rparr>)))"

text \<open>\<^verbatim>\<open>d.pop(key)\<close> raises KeyError when the key is absent; \<^verbatim>\<open>d.pop(key, default)\<close> does not.\<close>

definition dict_pop :: "nat \<Rightarrow> string \<Rightarrow> val prog" where
  "dict_pop r key s =
     (case heap s r key of
        None \<Rightarrow> raise KeyError s
      | Some v \<Rightarrow> (Inr v, s\<lparr>heap := (heap s)(r := (heap s r)(key := None))\<rparr>))"

text \<open>The same on a value: only a reference to a dictionary has the method.\<close>

definition val_pop :: "val \<Rightarrow> string \<Rightarrow> val prog" where
  "val_pop v key = (case v of RefV r \<Rightarrow> dict_pop r key | _ \<Rightarrow> raise AttributeError)"

definition dict_pop_default :: "nat \<Rightarrow> string \<Rightarrow> val \<Rightarrow> val prog" where
  "dict_pop_default r key d s =
     (case heap s r key of
        None \<Rightarrow> (Inr d, s)
      | Some v \<Rightarrow> (Inr v, s\<lparr>heap := (heap s)(r := (heap s r)(key := None))\<rparr>))"

text \<open>A \<^verbatim>\<open>for\<close> loop over the items of a list, with their positions (\<^verbatim>\<open>enumerate\<close>).\<close>

fun for_enumerate :: "nat \<Rightarrow> 'a list \<Rightarrow> (nat \<Rightarrow> 'a \<Rightarrow> unit prog) \<Rightarrow> unit prog" where
  "for_enumerate idx [] body = ret ()"
| "for_enumerate idx (y # ys) body = bindS (body idx y) (\<lambda>_. for_enumerate (Suc idx) ys body)"

text \<open>
  Subscripts and slices of a list or tuple value: a negative index counts from the end,
  an index out of range raises IndexError, a slice is clipped to the list.
\<close>

definition list_getitem :: "val list \<Rightarrow> int \<Rightarrow> exn + val" where
  "list_getitem xs i =
     (if 0 \<le> i \<and> i < int (length xs) then Inr (xs ! nat i)
      else if i < 0 \<and> - int (length xs) \<le> i then Inr (xs ! nat (int (length xs) + i))
      else Inl IndexError)"

definition val_getitem :: "val \<Rightarrow> int \<Rightarrow> exn + val" where
  "val_getitem v i =
     (case v of ListV xs \<Rightarrow> list_getitem xs i
              | TupleV xs \<Rightarrow> list_getitem xs i
              | _ \<Rightarrow> Inl TypeError)"

definition slice_from :: "'a list \<Rightarrow> int \<Rightarrow> 'a list" where
  "slice_from xs i =
     (let n = int (length xs); j = (if i < 0 then max 0 (n + i) else min i n)
      in drop (nat j) xs)"

definition val_slice_from :: "val \<Rightarrow> int \<Rightarrow> exn + val" where
  "val_slice_from v i =
     (case v of ListV xs \<Rightarrow> Inr (ListV (slice_from xs i))
              | TupleV xs \<Rightarrow> Inr (TupleV (slice_from xs i))
              | _ \<Rightarrow> Inl TypeError)"

text \<open>
  \<^verbatim>\<open>np.linspace(start, stop, num=50)\<close>: \<open>num\<close> evenly spaced samples from
  \<open>start\<close> to \<open>stop\<close>, both included, as NumPy documents it; computed here in exact
  arithmetic. The call is recorded in the trace like any other library call.
\<close>

definition num_of :: "val \<Rightarrow> real option" where
  "num_of v = (case v of IntV i \<Rightarrow> Some (of_int i) | FloatV r \<Rightarrow> Some r | _ \<Rightarrow> None)"

definition linspace :: "real \<Rightarrow> real \<Rightarrow> nat \<Rightarrow> real list" where
  "linspace start stop num = map (\<lambda>i. start + real i * ((stop - start) / real (num - 1))) [0..<num]"

definition np_linspace :: "val \<Rightarrow> val \<Rightarrow> nat option \<Rightarrow> val prog" where
  "np_linspace start stop num s =
     (let args = [start, stop] @ (case num of None \<Rightarrow> [] | Some n \<Rightarrow> [IntV (int n)]);
          r = (case (num_of start, num_of stop) of
                 (Some a, Some b) \<Rightarrow> Inr (ArrayV (linspace a b (case num of None \<Rightarrow> 50 | Some n \<Rightarrow> n)))
               | _ \<Rightarrow> Inl TypeError)
      in (r, log (Ext (Func ''np.linspace'' args []) r) s))"

section \<open>The functions defined in the notebooks\<close>

text \<open>
  \<^verbatim>\<open>def rmsd(x):
      diff = np.array(ref[4-len(x):]) - x
      return np.sum(diff**2)**0.5\<close>
\<close>

definition rmsd :: "lib \<Rightarrow> val \<Rightarrow> val prog" where
  "rmsd L x =
     bindS (lookup ''ref'') (\<lambda>ref.
     bindS (call_len L (Func ''len'' [x] [])) (\<lambda>n.
     bindS (liftE (val_slice_from ref (4 - int n))) (\<lambda>tail.
     bindS (call_val L (Func ''np.array'' [tail] [])) (\<lambda>arr.
     bindS (call_val L (Method arr ''__sub__'' [x] [])) (\<lambda>diff.
     bindS (call_val L (Method diff ''__pow__'' [IntV 2] [])) (\<lambda>sq.
     bindS (call_val L (Func ''np.sum'' [sq] [])) (\<lambda>total.
     call_val L (Method total ''__pow__'' [FloatV 0.5] []))))))))"

text \<open>
  \<^verbatim>\<open>def integrate_and_plot(odesys, integrator, tout, y0, k, interpolate=False,
                         stiffness=False, **kwargs):
      plt.figure(figsize=(14,5))
      xout, yout, info = odesys.integrate(tout, y0, k, integrator=integrator, **kwargs)
      plt.subplot(1, 3 if stiffness else 2, 1)
      odesys.plot_result(interpolate=interpolate)
      plt.legend(loc='best')

      plt.subplot(1, 3 if stiffness else 2, 2)
      plt.gca().set_xscale('log')
      plt.gca().set_yscale('log')
      odesys.plot_result(interpolate=interpolate)
      plt.legend(loc='best')

      if stiffness:
          ratios = odesys.stiffness()
          plt.subplot(1, 3, 3)
          plt.yscale('linear')
          plt.plot(odesys.internal_xout, ratios)
      info.pop('internal_xout')
      info.pop('internal_yout')
      return len(xout), info, rmsd(yout[-1, :])\<close>
  The second component of the result is the reference to \<open>info\<close>.
\<close>

definition integrate_and_plot ::
  "lib \<Rightarrow> val \<Rightarrow> val \<Rightarrow> val \<Rightarrow> val \<Rightarrow> val \<Rightarrow> bool \<Rightarrow> bool \<Rightarrow> kwargs \<Rightarrow> (nat \<times> nat \<times> val) prog" where
  "integrate_and_plot L odesys integrator tout y0 k interpolate stiffness kwargs =
     bindS (call_val L (Func ''plt.figure'' [] [(''figsize'', TupleV [IntV 14, IntV 5])])) (\<lambda>_.
     bindS (call_integrate L (Method odesys ''integrate'' [tout, y0, k]
                                ((''integrator'', integrator) # kwargs))) (\<lambda>(xout, yout, info).
     bindS (call_val L (Func ''plt.subplot'' [IntV 1, IntV (if stiffness then 3 else 2), IntV 1] [])) (\<lambda>_.
     bindS (call_pair L (Method odesys ''plot_result'' [] [(''interpolate'', BoolV interpolate)])) (\<lambda>_.
     bindS (call_val L (Func ''plt.legend'' [] [(''loc'', StrV ''best'')])) (\<lambda>_.
     bindS (call_val L (Func ''plt.subplot'' [IntV 1, IntV (if stiffness then 3 else 2), IntV 2] [])) (\<lambda>_.
     bindS (call_val L (Func ''plt.gca'' [] [])) (\<lambda>ax.
     bindS (call_val L (Method ax ''set_xscale'' [StrV ''log''] [])) (\<lambda>_.
     bindS (call_val L (Func ''plt.gca'' [] [])) (\<lambda>ax.
     bindS (call_val L (Method ax ''set_yscale'' [StrV ''log''] [])) (\<lambda>_.
     bindS (call_pair L (Method odesys ''plot_result'' [] [(''interpolate'', BoolV interpolate)])) (\<lambda>_.
     bindS (call_val L (Func ''plt.legend'' [] [(''loc'', StrV ''best'')])) (\<lambda>_.
     bindS (if stiffness then
              bindS (call_val L (Method odesys ''stiffness'' [] [])) (\<lambda>ratios.
              bindS (call_val L (Func ''plt.subplot'' [IntV 1, IntV 3, IntV 3] [])) (\<lambda>_.
              bindS (call_val L (Func ''plt.yscale'' [StrV ''linear''] [])) (\<lambda>_.
              bindS (call_val L (Attr odesys ''internal_xout'')) (\<lambda>ixout.
              bindS (call_val L (Func ''plt.plot'' [ixout, ratios] [])) (\<lambda>_.
              ret ())))))
            else ret ()) (\<lambda>_.
     bindS (dict_pop info ''internal_xout'') (\<lambda>_.
     bindS (dict_pop info ''internal_yout'') (\<lambda>_.
     bindS (call_len L (Func ''len'' [xout] [])) (\<lambda>n.
     bindS (lookup ''rmsd'') (\<lambda>_.
     bindS (call_val L (Method yout ''__getitem__''
                          [TupleV [IntV (- 1), SliceV NoneV NoneV NoneV]] [])) (\<lambda>last.
     bindS (rmsd L last) (\<lambda>d.
     ret (n, info, d))))))))))))))))))))"

text \<open>
  \<^verbatim>\<open>def solve_and_plot(sparse=0, roots=None, nderiv=0, interpolate=None, **kwargs):
      odesys2 = SymbolicSys(zip(odesys1.dep, odesys1.exprs), odesys1.indep,
                            odesys1.params, roots=roots)
      xout2, yout2, info2 = odesys2.integrate([0, tend], y0, [mu], integrator='cvode',
                                              sparse=sparse, nderiv=nderiv)
      info2.pop('root_indices', None)
      if interpolate is None:
          interpolate = nderiv > 0
      plt.figure(figsize=(14, 8 if interpolate else 4))
      ax1 = plt.subplot(2 if interpolate else 1, 1, 1)
      c = ('k', 'r')
      xplot, yplot = odesys2.plot_result(interpolate=interpolate, m_lim=100,
                                         ls=('-',), c=c, **kwargs)
      plt.ylabel('y')

      if interpolate:
          xref, yref, inforef = odesys2.integrate(xplot, y0, [mu], integrator='cvode',
                                                  force_predefined=True, nsteps=5000)
          for idx, y in enumerate(yref.T):
              plt.plot(xref, y, ls='--', c=c[idx], alpha=0.35)

          plt.subplots_adjust(hspace=0.0005)
          ax2 = plt.subplot(2, 1, 2, sharex=ax1)
          plt.ylabel('error')
          ydiff = yplot - yref
          for idx, y in enumerate(ydiff.T):
              plt.plot(xref, y, ls='-', c=c[idx])
          plt.setp(ax1.get_xticklabels(), visible=False)

      plt.xlabel('x')
      info2.pop('internal_xout')
      info2.pop('internal_yout')
      return info2, xplot, yplot\<close>
  \<open>interpolate\<close> is \<open>None\<close> or a truth value; \<open>nderiv\<close> is an integer. The names
  \<open>odesys1\<close>, \<open>tend\<close>, \<open>y0\<close> and \<open>mu\<close> are globals of the notebook, read when the
  function runs. The items of \<^verbatim>\<open>enumerate(a.T)\<close> are the rows that iterating the
  library's array yields, each paired with its position.
\<close>

definition global_attr :: "lib \<Rightarrow> string \<Rightarrow> string \<Rightarrow> val prog" where
  "global_attr L n a = bindS (lookup n) (\<lambda>obj. call_val L (Attr obj a))"

definition solve_and_plot ::
  "lib \<Rightarrow> val \<Rightarrow> val \<Rightarrow> int \<Rightarrow> bool option \<Rightarrow> kwargs \<Rightarrow> (nat \<times> val \<times> val) prog" where
  "solve_and_plot L sparse roots nderiv interpolate kwargs =
     bindS (global_attr L ''odesys1'' ''dep'') (\<lambda>dep.
     bindS (global_attr L ''odesys1'' ''exprs'') (\<lambda>exprs.
     bindS (call_val L (Func ''zip'' [dep, exprs] [])) (\<lambda>pairs.
     bindS (global_attr L ''odesys1'' ''indep'') (\<lambda>indep.
     bindS (global_attr L ''odesys1'' ''params'') (\<lambda>params.
     bindS (call_val L (Func ''SymbolicSys'' [pairs, indep, params] [(''roots'', roots)])) (\<lambda>odesys2.
     bindS (lookup ''tend'') (\<lambda>tend.
     bindS (lookup ''y0'') (\<lambda>y0.
     bindS (lookup ''mu'') (\<lambda>mu.
     bindS (call_integrate L (Method odesys2 ''integrate'' [ListV [IntV 0, tend], y0, ListV [mu]]
              [(''integrator'', StrV ''cvode''), (''sparse'', sparse), (''nderiv'', IntV nderiv)]))
       (\<lambda>(xout2, yout2, info2).
     bindS (dict_pop_default info2 ''root_indices'' NoneV) (\<lambda>_.
     bindS (ret (case interpolate of None \<Rightarrow> nderiv > 0 | Some b \<Rightarrow> b)) (\<lambda>interpolate.
     bindS (call_val L (Func ''plt.figure'' []
              [(''figsize'', TupleV [IntV 14, IntV (if interpolate then 8 else 4)])])) (\<lambda>_.
     bindS (call_val L (Func ''plt.subplot'' [IntV (if interpolate then 2 else 1), IntV 1, IntV 1] [])) (\<lambda>ax1.
     bindS (ret (TupleV [StrV ''k'', StrV ''r''])) (\<lambda>c.
     bindS (call_pair L (Method odesys2 ''plot_result'' []
              ([(''interpolate'', BoolV interpolate), (''m_lim'', IntV 100),
                (''ls'', TupleV [StrV ''-'']), (''c'', c)] @ kwargs))) (\<lambda>(xplot, yplot).
     bindS (call_val L (Func ''plt.ylabel'' [StrV ''y''] [])) (\<lambda>_.
     bindS (if interpolate then
              bindS (lookup ''y0'') (\<lambda>y0.
              bindS (lookup ''mu'') (\<lambda>mu.
              bindS (call_integrate L (Method odesys2 ''integrate'' [xplot, y0, ListV [mu]]
                       [(''integrator'', StrV ''cvode''), (''force_predefined'', BoolV True),
                        (''nsteps'', IntV 5000)])) (\<lambda>(xref, yref, inforef).
              bindS (call_val L (Attr yref ''T'')) (\<lambda>yrefT.
              bindS (call_iter L (Func ''enumerate'' [yrefT] [])) (\<lambda>rows.
              bindS (for_enumerate 0 rows (\<lambda>idx y.
                       bindS (liftE (val_getitem c (int idx))) (\<lambda>ci.
                       bindS (call_val L (Func ''plt.plot'' [xref, y]
                                [(''ls'', StrV ''--''), (''c'', ci), (''alpha'', FloatV 0.35)])) (\<lambda>_.
                       ret ())))) (\<lambda>_.
              bindS (call_val L (Func ''plt.subplots_adjust'' [] [(''hspace'', FloatV 0.0005)])) (\<lambda>_.
              bindS (call_val L (Func ''plt.subplot'' [IntV 2, IntV 1, IntV 2] [(''sharex'', ax1)])) (\<lambda>ax2.
              bindS (call_val L (Func ''plt.ylabel'' [StrV ''error''] [])) (\<lambda>_.
              bindS (call_val L (Method yplot ''__sub__'' [yref] [])) (\<lambda>ydiff.
              bindS (call_val L (Attr ydiff ''T'')) (\<lambda>ydiffT.
              bindS (call_iter L (Func ''enumerate'' [ydiffT] [])) (\<lambda>rows.
              bindS (for_enumerate 0 rows (\<lambda>idx y.
                       bindS (liftE (val_getitem c (int idx))) (\<lambda>ci.
                       bindS (call_val L (Func ''plt.plot'' [xref, y]
                                [(''ls'', StrV ''-''), (''c'', ci)])) (\<lambda>_.
                       ret ())))) (\<lambda>_.
              bindS (call_val L (Method ax1 ''get_xticklabels'' [] [])) (\<lambda>labels.
              bindS (call_val L (Func ''plt.setp'' [labels] [(''visible'', BoolV False)])) (\<lambda>_.
              ret ())))))))))))))))
            else ret ()) (\<lambda>_.
     bindS (call_val L (Func ''plt.xlabel'' [StrV ''x''] [])) (\<lambda>_.
     bindS (dict_pop info2 ''internal_xout'') (\<lambda>_.
     bindS (dict_pop info2 ''internal_yout'') (\<lambda>_.
     ret (info2, xplot, yplot))))))))))))))))))))))"

section \<open>Vocabulary of the properties\<close>

text \<open>
  \<open>wp m Q E s\<close>: running \<open>m\<close> from \<open>s\<close> ends in a state that satisfies \<open>Q\<close> with the
  value returned, or \<open>E\<close> with the exception raised.
\<close>

definition wp :: "'a prog \<Rightarrow> ('a \<Rightarrow> state \<Rightarrow> bool) \<Rightarrow> (exn \<Rightarrow> state \<Rightarrow> bool) \<Rightarrow> state \<Rightarrow> bool" where
  "wp m Q E s = (case m s of (Inl e, s') \<Rightarrow> E e s' | (Inr v, s') \<Rightarrow> Q v s')"

text \<open>The exceptions that library calls raised, in order.\<close>

definition lib_errors :: "event list \<Rightarrow> exn list" where
  "lib_errors tr = concat (map (\<lambda>ev. case ev of Ext c (Inl e) \<Rightarrow> [e] | _ \<Rightarrow> []) tr)"

text \<open>The events that a run from \<open>s\<close> to \<open>s'\<close> added to the trace.\<close>

definition added :: "state \<Rightarrow> state \<Rightarrow> event list" where
  "added s s' = drop (length (trace s)) (trace s')"

text \<open>A fresh notebook kernel: nothing bound, nothing called.\<close>

definition init :: state where
  "init = \<lparr>trace = [], globals = Map.empty, heap = (\<lambda>_. Map.empty), next_ref = 0\<rparr>"

text \<open>
  Two libraries to run the notebooks on. In \<open>lib_ok\<close> every call returns: some object,
  the length 4, two rows, and from \<^verbatim>\<open>integrate\<close> a diagnostics mapping with the
  entries \<^verbatim>\<open>internal_xout\<close>, \<^verbatim>\<open>internal_yout\<close> and \<^verbatim>\<open>nfev\<close>.
  \<open>lib_failing n e\<close> is the same, but the call made when the trace has \<open>n\<close> events
  raises \<open>e\<close>.
\<close>

definition lib_ok :: lib where
  "lib_ok = \<lparr>ext_val = (\<lambda>tr c. Inr (ObjV 0)),
             ext_len = (\<lambda>tr c. Inr 4),
             ext_iter = (\<lambda>tr c. Inr [ObjV 3, ObjV 4]),
             ext_pair = (\<lambda>tr c. Inr (ObjV 1, ObjV 2)),
             ext_integrate = (\<lambda>tr c. Inr (ObjV 5, ObjV 6,
                [''internal_xout'' \<mapsto> ObjV 5, ''internal_yout'' \<mapsto> ObjV 6,
                 ''nfev'' \<mapsto> IntV 10]))\<rparr>"

definition lib_failing :: "nat \<Rightarrow> exn \<Rightarrow> lib" where
  "lib_failing n e =
     \<lparr>ext_val = (\<lambda>tr c. if length tr = n then Inl e else ext_val lib_ok tr c),
      ext_len = (\<lambda>tr c. if length tr = n then Inl e else ext_len lib_ok tr c),
      ext_iter = (\<lambda>tr c. if length tr = n then Inl e else ext_iter lib_ok tr c),
      ext_pair = (\<lambda>tr c. if length tr = n then Inl e else ext_pair lib_ok tr c),
      ext_integrate = (\<lambda>tr c. if length tr = n then Inl e else ext_integrate lib_ok tr c)\<rparr>"

text \<open>
  The exceptions raised, in order: by library calls and by operations of the notebook's
  own code.
\<close>

definition raised :: "event list \<Rightarrow> exn list" where
  "raised tr =
     concat (map (\<lambda>ev. case ev of Ext c (Inl e) \<Rightarrow> [e] | Raised e \<Rightarrow> [e] | _ \<Rightarrow> []) tr)"

text \<open>
  \<open>ends_with_raise evs e\<close>: the last of the events \<open>evs\<close> is \<open>e\<close> being raised,
  and nothing was raised before it.
\<close>

definition ends_with_raise :: "event list \<Rightarrow> exn \<Rightarrow> bool" where
  "ends_with_raise evs e = (evs \<noteq> [] \<and> raised (butlast evs) = [] \<and> raised [last evs] = [e])"

text \<open>
  \<open>propagates_from m s\<close>: the run of \<open>m\<close> from \<open>s\<close> only adds events to the
  trace; if it returns, nothing was raised during the run; if it raises \<open>e\<close>, then the
  run ended where \<open>e\<close> was raised, and nothing was raised before. So an exception that
  a callee raises, a library or an operation of the notebook's own code, is never
  handled, replaced or followed by further steps. \<open>propagates m\<close>: this holds from
  every state.
\<close>

definition propagates_from :: "'a prog \<Rightarrow> state \<Rightarrow> bool" where
  "propagates_from m s =
     (case m s of (r, s') \<Rightarrow>
        trace s' = trace s @ added s s'
        \<and> (case r of Inl e \<Rightarrow> ends_with_raise (added s s') e
                     | Inr v \<Rightarrow> raised (added s s') = []))"

definition propagates :: "'a prog \<Rightarrow> bool" where
  "propagates m = (\<forall>s. propagates_from m s)"

text \<open>
  The two steps of \<open>solve_and_plot\<close> that compare with a reference solution: the
  integration on the plotted grid (the only call of \<^verbatim>\<open>integrate\<close> with
  \<^verbatim>\<open>force_predefined=True\<close>) and the subtraction \<^verbatim>\<open>yplot - yref\<close>.
\<close>

definition is_reference_integration :: "event \<Rightarrow> bool" where
  "is_reference_integration ev =
     (case ev of Ext (Method obj name args kw) r \<Rightarrow>
                   name = ''integrate'' \<and> (''force_predefined'', BoolV True) \<in> set kw
               | _ \<Rightarrow> False)"

definition is_error_computation :: "event \<Rightarrow> bool" where
  "is_error_computation ev =
     (case ev of Ext (Method obj name args kw) r \<Rightarrow> name = ''__sub__'' | _ \<Rightarrow> False)"

text \<open>The references to the diagnostics mappings that calls of \<^verbatim>\<open>integrate\<close> returned.\<close>

definition integrate_refs :: "event list \<Rightarrow> nat list" where
  "integrate_refs tr =
     concat (map (\<lambda>ev. case ev of
                    Ext (Method obj name args kw) (Inr (TupleV [xout, yout, RefV r])) \<Rightarrow>
                      if name = ''integrate'' then [r] else []
                  | _ \<Rightarrow> []) tr)"

text \<open>
  \<open>emits P m\<close>: whatever the libraries do, a run of \<open>m\<close> only adds events to the trace,
  and every event it adds satisfies \<open>P\<close>.
\<close>

definition emits :: "(event \<Rightarrow> bool) \<Rightarrow> 'a prog \<Rightarrow> bool" where
  "emits P m = (\<forall>s. \<exists>evs. trace (snd (m s)) = trace s @ evs \<and> list_all P evs)"

text \<open>\<open>lib_bare\<close> is \<open>lib_ok\<close> with a diagnostics mapping that has no entry at all.\<close>

definition lib_bare :: lib where
  "lib_bare = lib_ok\<lparr>ext_integrate :=
     (\<lambda>tr c. Inr (ObjV 5, ObjV 6, Map.empty))\<rparr>"

text \<open>
  \<open>lib_roots\<close> is \<open>lib_ok\<close> with a diagnostics mapping that also has the entry
  \<^verbatim>\<open>root_indices\<close>.
\<close>

definition lib_roots :: lib where
  "lib_roots = lib_ok\<lparr>ext_integrate :=
     (\<lambda>tr c. Inr (ObjV 5, ObjV 6,
        [''internal_xout'' \<mapsto> ObjV 5, ''internal_yout'' \<mapsto> ObjV 6,
         ''root_indices'' \<mapsto> ListV [IntV 3]]))\<rparr>"

text \<open>
  A state in which the globals that \<open>integrate_and_plot\<close>, \<open>rmsd\<close> and
  \<open>solve_and_plot\<close> read are bound, as the notebooks bind them before the calls.
\<close>

definition demo_state :: state where
  "demo_state = init\<lparr>globals :=
     [''rmsd'' \<mapsto> FunV ''rmsd'', ''ref'' \<mapsto> ListV [FloatV 1, FloatV 2, FloatV 3, FloatV 4],
      ''odesys1'' \<mapsto> ObjV 0, ''tend'' \<mapsto> IntV 25, ''y0'' \<mapsto> ListV [IntV 0, IntV 1],
      ''mu'' \<mapsto> FloatV 2.5]\<rparr>"

section \<open>Properties of the right-hand-side callbacks\<close>

lemmas E_defs = bindE_def getitem_def negE_def mulE_def subE_def addE_def powE_def

lemma list_display_length: "list_display ms = Inr r \<Longrightarrow> length r = length ms"
  by (induction ms arbitrary: r) (auto simp: bindE_def split: sum.splits)

lemma f_length: "f t x k = Inr r \<Longrightarrow> length r = 4"
  unfolding f_def by (drule list_display_length) simp

lemma f_returns: "4 \<le> length x \<Longrightarrow> 4 \<le> length k \<Longrightarrow> \<exists>r. f t x k = Inr r"
  by (auto simp: f_def E_defs)

lemma vdp1_length: "vdp1 t y p = Inr r \<Longrightarrow> length r = 2"
  unfolding vdp1_def by (drule list_display_length) simp

lemma vdp1_returns: "2 \<le> length y \<Longrightarrow> 1 \<le> length p \<Longrightarrow> \<exists>r. vdp1 t y p = Inr r"
  by (auto simp: vdp1_def E_defs)

lemma f2_length: "f2 sp_exp t x p = Inr r \<Longrightarrow> length r = length x"
  apply (auto simp: f2_def bindE_def split: sum.splits dest!: list_display_length)
  apply (auto simp: E_defs split: if_splits sum.splits)
  done

lemma f2_returns:
  assumes "length x = 3" and "length p = 5" and "sp_exp (- (p ! 1) * t) = Inr w"
  shows "\<exists>r. f2 sp_exp t x p = Inr r"
  using assms by (simp add: f2_def E_defs upt_rec)

lemma list_display_returns_iff:
  "(\<exists>r. list_display ms = Inr r) \<longleftrightarrow> (\<forall>m \<in> set ms. \<exists>v. m = Inr v)"
  by (induction ms) (auto simp: bindE_def split: sum.splits)

lemma list_display_raises: "list_display ms = Inl e \<Longrightarrow> Inl e \<in> set ms"
  by (induction ms) (auto simp: bindE_def split: sum.splits)

lemma f_returns_iff: "(\<exists>r. f t x k = Inr r) \<longleftrightarrow> 4 \<le> length x \<and> 4 \<le> length k"
  unfolding f_def list_display_returns_iff by (auto simp: E_defs)

lemma f_raises: "f t x k = Inl e \<Longrightarrow> e = IndexError"
  unfolding f_def by (drule list_display_raises) (auto simp: E_defs split: if_splits)

lemma vdp1_returns_iff: "(\<exists>r. vdp1 t y p = Inr r) \<longleftrightarrow> 2 \<le> length y \<and> 1 \<le> length p"
  unfolding vdp1_def list_display_returns_iff by (auto simp: E_defs Suc_le_eq)

lemma vdp1_raises: "vdp1 t y p = Inl e \<Longrightarrow> e = IndexError"
  unfolding vdp1_def by (drule list_display_raises) (auto simp: E_defs split: if_splits)

lemma sub_mul_returns_iff:
  "(\<exists>v. subE (mulE (getitem p a) (getitem x b)) (mulE (getitem p c) (getitem x d)) = Inr v)
   \<longleftrightarrow> a < length p \<and> b < length x \<and> c < length p \<and> d < length x"
  by (auto simp: E_defs)

lemma sub_mul_raises:
  "subE (mulE (getitem p a) (getitem x b)) (mulE (getitem p c) (getitem x d)) = Inl e \<Longrightarrow> e = IndexError"
  by (auto simp: E_defs split: if_splits)

lemma f2_rest_returns_iff:
  "(\<exists>r. list_display (map (\<lambda>i. subE (mulE (getitem p (i + 2)) (getitem x i))
                                        (mulE (getitem p (i + 3)) (getitem x (i + 1))))
                              [0..<length x - 1]) = Inr r)
   \<longleftrightarrow> (length x \<le> 1 \<or> length x + 2 \<le> length p)"
proof -
  have "(\<forall>i < length x - 1. i + 2 < length p \<and> i < length x \<and> i + 3 < length p \<and> i + 1 < length x)
        \<longleftrightarrow> (length x \<le> 1 \<or> length x + 2 \<le> length p)"
  proof
    assume a: "\<forall>i < length x - 1. i + 2 < length p \<and> i < length x \<and> i + 3 < length p \<and> i + 1 < length x"
    show "length x \<le> 1 \<or> length x + 2 \<le> length p"
    proof (cases "length x \<le> 1")
      case False
      then have "length x - 2 < length x - 1" by simp
      with a have "length x - 2 + 3 < length p" by blast
      with False show ?thesis by simp
    qed simp
  next
    assume "length x \<le> 1 \<or> length x + 2 \<le> length p"
    then show "\<forall>i < length x - 1. i + 2 < length p \<and> i < length x \<and> i + 3 < length p \<and> i + 1 < length x"
      by auto
  qed
  moreover have "(\<forall>m \<in> set (map (\<lambda>i. subE (mulE (getitem p (i + 2)) (getitem x i))
                                        (mulE (getitem p (i + 3)) (getitem x (i + 1))))
                              [0..<length x - 1]). \<exists>v. m = Inr v)
     \<longleftrightarrow> (\<forall>i < length x - 1. \<exists>v. subE (mulE (getitem p (i + 2)) (getitem x i))
                                        (mulE (getitem p (i + 3)) (getitem x (i + 1))) = Inr v)"
    by auto
  ultimately show ?thesis
    unfolding list_display_returns_iff sub_mul_returns_iff by blast
qed

lemma f2_returns_iff:
  "(\<exists>r. f2 sp_exp t x p = Inr r) \<longleftrightarrow>
     2 \<le> length p \<and> (\<exists>w. sp_exp (- (p ! 1) * t) = Inr w) \<and> x \<noteq> [] \<and> length x + 2 \<le> length p"
proof (cases "2 \<le> length p")
  case False
  then show ?thesis by (auto simp: f2_def E_defs)
next
  case p2: True
  show ?thesis
  proof (cases "sp_exp (- (p ! 1) * t)")
    case (Inl e)
    with p2 show ?thesis by (simp add: f2_def E_defs)
  next
    case (Inr w)
    show ?thesis
    proof (cases "3 \<le> length p \<and> x \<noteq> []")
      case False
      with p2 Inr show ?thesis by (auto simp: f2_def E_defs)
    next
      case True
      then have first: "list_display [subE (mulE (getitem p 1) (Inr (p ! 0 * w))) (mulE (getitem p 2) (getitem x 0))]
          = Inr [p ! 1 * (p ! 0 * w) - p ! 2 * x ! 0]"
        by (simp add: E_defs)
      have "(\<exists>r. f2 sp_exp t x p = Inr r) \<longleftrightarrow> (length x \<le> 1 \<or> length x + 2 \<le> length p)"
        unfolding f2_rest_returns_iff [symmetric, of x p]
        using p2 Inr first by (auto simp: f2_def E_defs split: sum.splits)
      with True p2 Inr show ?thesis by (cases x) auto
    qed
  qed
qed

lemma f2_raises:
  assumes "f2 sp_exp t x p = Inl e"
  shows "e = IndexError \<or> sp_exp (- (p ! 1) * t) = Inl e"
proof (cases "mulE (getitem p 0) (bindE (mulE (negE (getitem p 1)) (Inr t)) sp_exp)")
  case (Inl e')
  with assms have "e' = e" by (simp add: f2_def bindE_def)
  with Inl show ?thesis by (auto simp: E_defs split: if_splits sum.splits)
next
  case y0: (Inr y0)
  show ?thesis
  proof (cases "list_display [subE (mulE (getitem p 1) (Inr y0)) (mulE (getitem p 2) (getitem x 0))]")
    case (Inl e')
    with assms y0 have "e' = e" by (simp add: f2_def bindE_def)
    with Inl show ?thesis by (auto simp: E_defs split: if_splits sum.splits)
  next
    case first: (Inr first)
    show ?thesis
    proof (cases "list_display (map (\<lambda>i. subE (mulE (getitem p (i + 2)) (getitem x i))
                                        (mulE (getitem p (i + 3)) (getitem x (i + 1))))
                              [0..<length x - 1])")
      case (Inl e')
      with assms y0 first have "e' = e" by (simp add: f2_def bindE_def)
      with Inl list_display_raises obtain i where
        "subE (mulE (getitem p (i + 2)) (getitem x i)) (mulE (getitem p (i + 3)) (getitem x (i + 1))) = Inl e"
        by fastforce
      then show ?thesis by (simp add: sub_mul_raises)
    next
      case (Inr rest)
      with assms y0 first show ?thesis by (simp add: f2_def bindE_def)
    qed
  qed
qed

text \<open>
  C3. Each right-hand-side callback takes (independent variable, state, parameters) and
  returns a list whose length is the number of dependent variables given where the system
  is built: \<^verbatim>\<open>from_callback(f, 4, 4)\<close>, \<^verbatim>\<open>from_callback(vdp1, 2, 1)\<close>,
  \<^verbatim>\<open>from_callback(f2, 3, 5)\<close>. On a state and a parameter list of the declared sizes
  each callback returns (for \<open>f2\<close>, when SymPy's \<open>exp\<close> returns), and the result has
  4, 2 and 3 entries; whenever \<open>f\<close> or \<open>vdp1\<close> return at all the result has 4 or 2
  entries, and the result of \<open>f2\<close> is as long as its state.
\<close>

theorem callbacks_return_declared_length:
  "(length x = 4 \<and> length k = 4 \<longrightarrow> (\<exists>r. f t x k = Inr r \<and> length r = 4))
   \<and> (length y = 2 \<and> length p = 1 \<longrightarrow> (\<exists>r. vdp1 t y p = Inr r \<and> length r = 2))
   \<and> (length x2 = 3 \<and> length p2 = 5 \<and> sp_exp (- (p2 ! 1) * t2) = Inr w
        \<longrightarrow> (\<exists>r. f2 sp_exp t2 x2 p2 = Inr r \<and> length r = 3))
   \<and> (f t x' k' = Inr r1 \<longrightarrow> length r1 = 4)
   \<and> (vdp1 t y' p' = Inr r2 \<longrightarrow> length r2 = 2)
   \<and> (f2 sp_exp t2 x3 p3 = Inr r3 \<longrightarrow> length r3 = length x3)"
proof -
  have a: "length x = 4 \<and> length k = 4 \<longrightarrow> (\<exists>r. f t x k = Inr r \<and> length r = 4)"
    using f_returns [of x k t] f_length [of t x k] by auto
  have b: "length y = 2 \<and> length p = 1 \<longrightarrow> (\<exists>r. vdp1 t y p = Inr r \<and> length r = 2)"
    using vdp1_returns [of y p t] vdp1_length [of t y p] by auto
  have c: "length x2 = 3 \<and> length p2 = 5 \<and> sp_exp (- (p2 ! 1) * t2) = Inr w
        \<longrightarrow> (\<exists>r. f2 sp_exp t2 x2 p2 = Inr r \<and> length r = 3)"
    using f2_returns [of x2 p2 sp_exp t2 w] f2_length [of sp_exp t2 x2 p2] by auto
  show ?thesis
    using a b c f_length [of t x' k' r1] vdp1_length [of t y' p' r2]
      f2_length [of sp_exp t2 x3 p3 r3] by blast
qed

theorem callbacks_return_declared_length_witness:
  "f (0::int) [1, 0, 0, 0] [7, 3, 2, 0] = Inr [- 7, 7, 0, 0 :: int]
   \<and> vdp1 (0::int) [0, 1] [3] = Inr [1, 3 :: int]
   \<and> f2 (\<lambda>v. Inr (v + 100)) 1 [1, 2, 3] [1, 7, 3, 2, 1] = Inr [648, - 1, 1 :: int]"
  using callbacks_return_declared_length
    [of "[1, 0, 0, 0 :: int]" "[7, 3, 2, 0]" "0::int" "[0, 1]" "[3]" "[1, 2, 3]"
        "[1, 7, 3, 2, 1]" "\<lambda>v. Inr (v + 100)" 1 93 "[1, 0, 0, 0]" "[7, 3, 2, 0]"
        "[- 7, 7, 0, 0]" "[0, 1]" "[3]" "[1, 3]" "[1, 2, 3]" "[1, 7, 3, 2, 1]" "[648, - 1, 1]"]
  by (simp add: f_def vdp1_def f2_def E_defs upt_rec)

section \<open>The sum of the derivatives\<close>

lemma pow2_powr: "pow2 e = 2 powr of_int e"
  by (simp add: pow2_def powr_real_of_int inverse_eq_divide)

lemma floor_log2_eq:
  assumes "pow2 e \<le> x" and "x < pow2 (e + 1)"
  shows "\<lfloor>Transcendental.log 2 x\<rfloor> = e"
proof -
  have pos: "0 < x"
    using assms(1) by (rule less_le_trans [rotated]) (simp add: pow2_powr)
  have "of_int e \<le> Transcendental.log 2 x"
    using assms(1) pos by (simp add: le_log_iff pow2_powr)
  moreover have "Transcendental.log 2 x < of_int (e + 1)"
    using assms(2) pos by (simp add: log_less_iff pow2_powr)
  ultimately show ?thesis
    by (simp add: floor_eq_iff)
qed

lemma binary64_eq:
  assumes "pow2 e \<le> \<bar>x\<bar>" and "\<bar>x\<bar> < pow2 (e + 1)"
  shows "binary64 x = of_int (round_half_even (x / pow2 (e - 52))) * pow2 (e - 52)"
proof -
  have "0 < \<bar>x\<bar>"
    using assms(1) by (rule less_le_trans [rotated]) (simp add: pow2_powr)
  then have "x \<noteq> 0" by simp
  with floor_log2_eq [OF assms] show ?thesis
    by (simp add: binary64_def Let_def)
qed

lemma binary64_0 [simp]: "binary64 0 = 0"
  by (simp add: binary64_def)

lemma binary64_dyadic:
  assumes "pow2 e \<le> \<bar>x\<bar>" and "\<bar>x\<bar> < pow2 (e + 1)"
    and "y = of_int (round_half_even (x / pow2 (e - 52))) * pow2 (e - 52)"
  shows "binary64 x = y"
  using binary64_eq [OF assms(1,2)] assms(3) by simp

lemma f_float64_rates:
  "f_float64 t [x0, x1, 0, 0] [7, 3, 2, 0] =
     Inr [binary64 (- (7 * x0)), binary64 (binary64 (7 * x0) - binary64 (3 * x1)),
          binary64 (binary64 (3 * x1)), 0]"
  by (simp add: f_float64_def mulF_def subF_def E_defs)

text \<open>
  C8, as the specification states it (for every state, the sum is exactly zero), fails in
  the arithmetic in which the notebook runs \<open>f\<close>. With the rates \<open>k = [7, 3, 2, 0]\<close>
  and the state \<^verbatim>\<open>[0.9955278640450004, 0.00447213595499958, 0, 0]\<close> (the doubles
  \<open>8966917835100019 / 2^53\<close> and \<open>2578010857022247 / 2^59\<close>), \<open>f\<close> returns four
  doubles whose sum is \<open>- 139 / 2^59\<close>, about \<^verbatim>\<open>-2.4e-16\<close>, and not zero: whether the
  four are added exactly or as doubles, as Python's \<^verbatim>\<open>sum\<close> adds them.
\<close>

theorem f_float64_sum_not_zero:
  "f_float64 (0::real) [8966917835100019 / 2 ^ 53, 2578010857022247 / 2 ^ 59, 0, 0] [7, 3, 2, 0]
     = Inr [- (7846053105712517 / 2 ^ 50), 489434223334197 / 2 ^ 46, 7734032571066741 / 2 ^ 59, 0]
   \<and> sum_list [- (7846053105712517 / 2 ^ 50), 489434223334197 / 2 ^ 46,
                 7734032571066741 / 2 ^ 59, 0 :: real] = - (139 / 2 ^ 59)
   \<and> sumF [- (7846053105712517 / 2 ^ 50), 489434223334197 / 2 ^ 46,
             7734032571066741 / 2 ^ 59, 0] = - (139 / 2 ^ 59)"
proof -
  define x0 :: real where "x0 = 8966917835100019 / 2 ^ 53"
  define x1 :: real where "x1 = 2578010857022247 / 2 ^ 59"
  define a :: real where "a = 7846053105712517 / 2 ^ 50"
  define b :: real where "b = 7734032571066741 / 2 ^ 59"
  define c :: real where "c = 489434223334197 / 2 ^ 46"
  note ev = pow2_def round_half_even_def Let_def
  have a: "binary64 (7 * x0) = a"
    unfolding x0_def a_def by (rule binary64_dyadic [where e = 2]) (simp_all add: ev)
  have na: "binary64 (- (7 * x0)) = - a"
    unfolding x0_def a_def by (rule binary64_dyadic [where e = 2]) (simp_all add: ev)
  have b: "binary64 (3 * x1) = b"
    unfolding x1_def b_def by (rule binary64_dyadic [where e = "- 7"]) (simp_all add: ev)
  have bb: "binary64 b = b"
    unfolding b_def by (rule binary64_dyadic [where e = "- 7"]) (simp_all add: ev)
  have c: "binary64 (a - b) = c"
    unfolding a_def b_def c_def by (rule binary64_dyadic [where e = 2]) (simp_all add: ev)
  have s1: "binary64 (0 + - a) = - a"
    unfolding a_def by (rule binary64_dyadic [where e = 2]) (simp_all add: ev)
  have s2: "binary64 (- a + c) = - (15105532365365 / 2 ^ 50)"
    unfolding a_def c_def by (rule binary64_dyadic [where e = "- 7"]) (simp_all add: ev)
  have s3: "binary64 (- (15105532365365 / 2 ^ 50) + b) = - (139 / 2 ^ 59)"
    unfolding b_def by (rule binary64_dyadic [where e = "- 52"]) (simp_all add: ev)
  have s4: "binary64 (- (139 / 2 ^ 59) + 0) = - (139 / 2 ^ 59)"
    by (rule binary64_dyadic [where e = "- 52"]) (simp_all add: ev)
  have run: "f_float64 (0::real) [x0, x1, 0, 0] [7, 3, 2, 0] = Inr [- a, c, b, 0]"
    by (simp only: f_float64_rates a na b bb c)
  have total: "sum_list [- a, c, b, 0] = - (139 / 2 ^ 59)"
    by (simp add: a_def b_def c_def)
  have totalF: "sumF [- a, c, b, 0] = - (139 / 2 ^ 59)"
    by (simp only: sumF_def foldl.simps s1 s2 s3 s4)
  from run total totalF show ?thesis
    unfolding x0_def x1_def a_def b_def c_def by blast
qed

text \<open>
  C8, amended. In exact arithmetic, that is for a state and a rate list with at least four
  entries taken from a commutative ring (SymPy symbols, as \<^verbatim>\<open>SymbolicSys.from_callback\<close>
  passes them, integers, rationals), and for every \<open>t\<close>, the four derivatives that
  \<open>f\<close> returns add up to \<open>- k[3] * x[3]\<close>; with the notebook's rates
  \<open>k = [7, 3, 2, 0]\<close> they add up to zero: the decay chain conserves the total amount.
\<close>

theorem f_sum_of_derivatives:
  "(4 \<le> length x \<and> 4 \<le> length k
      \<longrightarrow> (\<exists>r. f t x k = Inr r \<and> length r = 4 \<and> sum_list r = - (k ! 3) * x ! 3))
   \<and> (4 \<le> length x \<longrightarrow> (\<exists>r. f t x [7, 3, 2, 0] = Inr r \<and> sum_list r = 0))"
  by (simp add: f_def E_defs algebra_simps)

theorem f_sum_of_derivatives_witness:
  "(\<exists>r. f (0::int) [1, 2, 3, 4, 5 :: int] [7, 3, 2, 6] = Inr r \<and> length r = 4 \<and> sum_list r = - 24)
   \<and> (\<exists>r. f (0::int) [1, 2, 3, 4, 5 :: int] [7, 3, 2, 0] = Inr r \<and> sum_list r = 0)"
  using f_sum_of_derivatives [of "[1, 2, 3, 4, 5 :: int]" "[7, 3, 2, 6]" "0::int"]
  by simp

text \<open>
  C10. \<open>f\<close> and \<open>vdp1\<close> are autonomous: their result does not depend on the
  independent variable. \<open>f2\<close> does depend on it: with the real exponential, the state
  \<open>[0]\<close> and the parameters \<open>[1, 1, 0]\<close> it returns different derivatives at 0 and at 1.
\<close>

theorem autonomous_callbacks:
  "f t1 x k = f t2 x k
   \<and> vdp1 t1 y p = vdp1 t2 y p
   \<and> f2 (\<lambda>v. Inr (exp v)) (0::real) [0] [1, 1, 0] \<noteq> f2 (\<lambda>v. Inr (exp v)) 1 [0] [1, 1, 0]"
  by (simp add: f_def vdp1_def f2_def E_defs)

section \<open>Rules for running the notebooks' code\<close>

lemma wp_ret [simp]: "wp (ret v) Q E = Q v"
  by (rule ext) (simp add: wp_def ret_def)

lemma wp_raise [simp]: "wp (raise e) Q E s = E e (log (Raised e) s)"
  by (simp add: wp_def raise_def)

lemma wp_bindS [simp]: "wp (bindS m g) Q E = wp m (\<lambda>v. wp (g v) Q E) E"
  by (rule ext) (simp add: wp_def bindS_def split: prod.splits sum.splits)

lemma bindS_ret: "bindS (ret v) g = g v"
  by (rule ext) (simp add: bindS_def ret_def)

lemma wp_seqS [simp]: "wp (seqS m n) Q E = wp m (\<lambda>_. wp n Q E) E"
  by (simp add: seqS_def)

lemma wp_assign:
  "wp (assign n v) Q E s = Q () (log (Bind n) (s\<lparr>globals := (globals s)(n \<mapsto> v)\<rparr>))"
  by (simp add: wp_def assign_def)

lemma wp_liftE:
  "wp (liftE r) Q E s = (case r of Inl e \<Rightarrow> E e (log (Raised e) s) | Inr v \<Rightarrow> Q v s)"
  by (simp add: liftE_def split: sum.splits)

lemma wp_lookup:
  "wp (lookup n) Q E s = (case globals s n of None \<Rightarrow> E NameError (log (Raised NameError) s)
      | Some v \<Rightarrow> Q v s)"
  by (simp add: wp_def lookup_def raise_def split: option.splits)

lemma wp_dict_pop:
  "wp (dict_pop r key) Q E s =
     (case heap s r key of None \<Rightarrow> E KeyError (log (Raised KeyError) s)
      | Some v \<Rightarrow> Q v (s\<lparr>heap := (heap s)(r := (heap s r)(key := None))\<rparr>))"
  by (simp add: wp_def dict_pop_def raise_def split: option.splits)

lemma wp_dict_pop_default:
  "wp (dict_pop_default r key d) Q E s =
     (case heap s r key of None \<Rightarrow> Q d s
      | Some v \<Rightarrow> Q v (s\<lparr>heap := (heap s)(r := (heap s r)(key := None))\<rparr>))"
  by (simp add: wp_def dict_pop_default_def split: option.splits)

lemma wp_call_val:
  "wp (call_val L c) Q E s =
     (case ext_val L (trace s) c of Inl e \<Rightarrow> E e (log (Ext c (Inl e)) s)
      | Inr v \<Rightarrow> Q v (log (Ext c (Inr v)) s))"
  by (simp add: wp_def call_val_def Let_def split: sum.splits)

lemma wp_call_len:
  "wp (call_len L c) Q E s =
     (case ext_len L (trace s) c of Inl e \<Rightarrow> E e (log (Ext c (Inl e)) s)
      | Inr n \<Rightarrow> Q n (log (Ext c (Inr (IntV (int n)))) s))"
  by (simp add: wp_def call_len_def Let_def split: sum.splits)

lemma wp_call_iter:
  "wp (call_iter L c) Q E s =
     (case ext_iter L (trace s) c of Inl e \<Rightarrow> E e (log (Ext c (Inl e)) s)
      | Inr vs \<Rightarrow> Q vs (log (Ext c (Inr (ListV vs))) s))"
  by (simp add: wp_def call_iter_def Let_def split: sum.splits)

lemma wp_call_pair:
  "wp (call_pair L c) Q E s =
     (case ext_pair L (trace s) c of Inl e \<Rightarrow> E e (log (Ext c (Inl e)) s)
      | Inr (a, b) \<Rightarrow> Q (a, b) (log (Ext c (Inr (TupleV [a, b]))) s))"
  by (simp add: wp_def call_pair_def Let_def split: sum.splits)

lemma wp_call_integrate:
  "wp (call_integrate L c) Q E s =
     (case ext_integrate L (trace s) c of Inl e \<Rightarrow> E e (log (Ext c (Inl e)) s)
      | Inr (x, y, m) \<Rightarrow> Q (x, y, next_ref s)
          (log (Ext c (Inr (TupleV [x, y, RefV (next_ref s)])))
             (s\<lparr>heap := (heap s)(next_ref s := m), next_ref := Suc (next_ref s)\<rparr>)))"
  by (simp add: wp_def call_integrate_def split: sum.splits)

lemmas wp_calls = wp_call_val wp_call_len wp_call_iter wp_call_pair wp_call_integrate

lemma log_simps [simp]:
  "trace (log ev s) = trace s @ [ev]" "globals (log ev s) = globals s"
  "heap (log ev s) = heap s" "next_ref (log ev s) = next_ref s"
  by (simp_all add: log_def)

lemma lib_errors_simps [simp]:
  "lib_errors [] = []"
  "lib_errors (tr @ tr') = lib_errors tr @ lib_errors tr'"
  "lib_errors (Bind n # tr) = lib_errors tr"
  "lib_errors (Ext c (Inr v) # tr) = lib_errors tr"
  "lib_errors (Ext c (Inl e) # tr) = e # lib_errors tr"
  "lib_errors (Raised e # tr) = lib_errors tr"
  by (simp_all add: lib_errors_def)

lemma raised_simps [simp]:
  "raised [] = []"
  "raised (tr @ tr') = raised tr @ raised tr'"
  "raised (Bind n # tr) = raised tr"
  "raised (Ext c (Inr v) # tr) = raised tr"
  "raised (Ext c (Inl e) # tr) = e # raised tr"
  "raised (Raised e # tr) = e # raised tr"
  by (simp_all add: raised_def)

text \<open>
  The same rules on a state written out field by field, one premise for each way a step
  can end.
\<close>

lemma wp_call_valI:
  "(\<And>v. Q v \<lparr>trace = tr @ [Ext c (Inr v)], globals = g, heap = h, next_ref = n\<rparr>)
   \<Longrightarrow> (\<And>e. E e \<lparr>trace = tr @ [Ext c (Inl e)], globals = g, heap = h, next_ref = n\<rparr>)
   \<Longrightarrow> wp (call_val L c) Q E \<lparr>trace = tr, globals = g, heap = h, next_ref = n\<rparr>"
  by (simp add: wp_call_val log_def split: sum.splits)

lemma wp_call_lenI:
  "(\<And>k. Q k \<lparr>trace = tr @ [Ext c (Inr (IntV (int k)))], globals = g, heap = h, next_ref = n\<rparr>)
   \<Longrightarrow> (\<And>e. E e \<lparr>trace = tr @ [Ext c (Inl e)], globals = g, heap = h, next_ref = n\<rparr>)
   \<Longrightarrow> wp (call_len L c) Q E \<lparr>trace = tr, globals = g, heap = h, next_ref = n\<rparr>"
  by (simp add: wp_call_len log_def split: sum.splits)

lemma wp_call_iterI:
  "(\<And>vs. Q vs \<lparr>trace = tr @ [Ext c (Inr (ListV vs))], globals = g, heap = h, next_ref = n\<rparr>)
   \<Longrightarrow> (\<And>e. E e \<lparr>trace = tr @ [Ext c (Inl e)], globals = g, heap = h, next_ref = n\<rparr>)
   \<Longrightarrow> wp (call_iter L c) Q E \<lparr>trace = tr, globals = g, heap = h, next_ref = n\<rparr>"
  by (simp add: wp_call_iter log_def split: sum.splits)

lemma wp_call_pairI:
  "(\<And>a b. Q (a, b) \<lparr>trace = tr @ [Ext c (Inr (TupleV [a, b]))], globals = g, heap = h, next_ref = n\<rparr>)
   \<Longrightarrow> (\<And>e. E e \<lparr>trace = tr @ [Ext c (Inl e)], globals = g, heap = h, next_ref = n\<rparr>)
   \<Longrightarrow> wp (call_pair L c) Q E \<lparr>trace = tr, globals = g, heap = h, next_ref = n\<rparr>"
  by (simp add: wp_call_pair log_def split: sum.splits)

lemma wp_call_integrateI:
  "(\<And>x y m. ext_integrate L tr c = Inr (x, y, m) \<Longrightarrow>
      Q (x, y, n) \<lparr>trace = tr @ [Ext c (Inr (TupleV [x, y, RefV n]))], globals = g,
                   heap = h(n := m), next_ref = Suc n\<rparr>)
   \<Longrightarrow> (\<And>e. E e \<lparr>trace = tr @ [Ext c (Inl e)], globals = g, heap = h, next_ref = n\<rparr>)
   \<Longrightarrow> wp (call_integrate L c) Q E \<lparr>trace = tr, globals = g, heap = h, next_ref = n\<rparr>"
  by (simp add: wp_call_integrate log_def split: sum.splits)

lemma wp_dict_popI:
  "(h r key = None \<Longrightarrow>
      E KeyError \<lparr>trace = tr @ [Raised KeyError], globals = g, heap = h, next_ref = n\<rparr>)
   \<Longrightarrow> (\<And>v. h r key = Some v \<Longrightarrow>
          Q v \<lparr>trace = tr, globals = g, heap = h(r := (h r)(key := None)), next_ref = n\<rparr>)
   \<Longrightarrow> wp (dict_pop r key) Q E \<lparr>trace = tr, globals = g, heap = h, next_ref = n\<rparr>"
  by (simp add: wp_dict_pop log_def split: option.splits)

lemma wp_dict_pop_defaultI:
  "(\<And>v. Q v \<lparr>trace = tr, globals = g, heap = h(r := (h r)(key := None)), next_ref = n\<rparr>)
   \<Longrightarrow> wp (dict_pop_default r key d) Q E \<lparr>trace = tr, globals = g, heap = h, next_ref = n\<rparr>"
proof (cases "h r key")
  case None
  then have "(h r)(key := None) = h r" by (simp add: fun_upd_idem)
  then have "h(r := (h r)(key := None)) = h" by simp
  moreover assume "\<And>v. Q v \<lparr>trace = tr, globals = g, heap = h(r := (h r)(key := None)), next_ref = n\<rparr>"
  ultimately show ?thesis using None by (simp add: wp_dict_pop_default)
next
  case (Some v)
  moreover assume "\<And>v. Q v \<lparr>trace = tr, globals = g, heap = h(r := (h r)(key := None)), next_ref = n\<rparr>"
  ultimately show ?thesis by (simp add: wp_dict_pop_default)
qed

lemma wp_lookupI:
  "(g x = None \<Longrightarrow>
      E NameError \<lparr>trace = tr @ [Raised NameError], globals = g, heap = h, next_ref = n\<rparr>)
   \<Longrightarrow> (\<And>v. g x = Some v \<Longrightarrow> Q v \<lparr>trace = tr, globals = g, heap = h, next_ref = n\<rparr>)
   \<Longrightarrow> wp (lookup x) Q E \<lparr>trace = tr, globals = g, heap = h, next_ref = n\<rparr>"
  by (simp add: wp_lookup log_def split: option.splits)

lemma wp_assignI:
  "Q () \<lparr>trace = tr @ [Bind x], globals = g(x \<mapsto> v), heap = h, next_ref = n\<rparr>
   \<Longrightarrow> wp (assign x v) Q E \<lparr>trace = tr, globals = g, heap = h, next_ref = n\<rparr>"
  by (simp add: wp_assign log_def)

lemma wp_liftEI:
  "(\<And>e. r = Inl e \<Longrightarrow>
      E e \<lparr>trace = tr @ [Raised e], globals = g, heap = h, next_ref = n\<rparr>)
   \<Longrightarrow> (\<And>v. r = Inr v \<Longrightarrow> Q v \<lparr>trace = tr, globals = g, heap = h, next_ref = n\<rparr>)
   \<Longrightarrow> wp (liftE r) Q E \<lparr>trace = tr, globals = g, heap = h, next_ref = n\<rparr>"
  by (simp add: wp_liftE log_def split: sum.splits)

lemma wp_raiseI:
  "E e \<lparr>trace = tr @ [Raised e], globals = g, heap = h, next_ref = n\<rparr>
   \<Longrightarrow> wp (raise e) Q E \<lparr>trace = tr, globals = g, heap = h, next_ref = n\<rparr>"
  by (simp add: log_def)

lemma wp_ifI:
  "(b \<Longrightarrow> wp m Q E s) \<Longrightarrow> (\<not> b \<Longrightarrow> wp n Q E s) \<Longrightarrow> wp (if b then m else n) Q E s"
  by simp

lemmas wp_intros = wp_call_valI wp_call_lenI wp_call_iterI wp_call_pairI wp_call_integrateI
  wp_dict_popI wp_dict_pop_defaultI wp_lookupI wp_assignI wp_liftEI wp_raiseI wp_ifI

lemma wp_bindS_I:
  assumes "wp m R E s" and "\<And>v s'. R v s' \<Longrightarrow> wp (g v) Q E s'"
  shows "wp (bindS m g) Q E s"
proof (cases "m s")
  case (Pair r s')
  show ?thesis
  proof (cases r)
    case (Inl e)
    with Pair assms(1) show ?thesis by (simp add: wp_def bindS_def)
  next
    case (Inr v)
    with Pair assms(1) have "R v s'" by (simp add: wp_def)
    from assms(2) [OF this] Pair Inr show ?thesis by (simp add: wp_def bindS_def)
  qed
qed

lemma wp_run: "wp m Q E s \<Longrightarrow> m s = (r, s') \<Longrightarrow> (case r of Inl e \<Rightarrow> E e s' | Inr v \<Rightarrow> Q v s')"
  by (simp add: wp_def)

text \<open>Evaluating a run on one of the two concrete libraries.\<close>

lemma lib_ok_simps:
  "ext_val lib_ok tr c = Inr (ObjV 0)"
  "ext_len lib_ok tr c = Inr 4"
  "ext_iter lib_ok tr c = Inr [ObjV 3, ObjV 4]"
  "ext_pair lib_ok tr c = Inr (ObjV 1, ObjV 2)"
  "ext_integrate lib_ok tr c = Inr (ObjV 5, ObjV 6,
     [''internal_xout'' \<mapsto> ObjV 5, ''internal_yout'' \<mapsto> ObjV 6, ''nfev'' \<mapsto> IntV 10])"
  by (simp_all add: lib_ok_def)

lemma lib_failing_simps:
  "ext_val (lib_failing n e) tr c = (if length tr = n then Inl e else ext_val lib_ok tr c)"
  "ext_len (lib_failing n e) tr c = (if length tr = n then Inl e else ext_len lib_ok tr c)"
  "ext_iter (lib_failing n e) tr c = (if length tr = n then Inl e else ext_iter lib_ok tr c)"
  "ext_pair (lib_failing n e) tr c = (if length tr = n then Inl e else ext_pair lib_ok tr c)"
  "ext_integrate (lib_failing n e) tr c = (if length tr = n then Inl e else ext_integrate lib_ok tr c)"
  by (simp_all add: lib_failing_def)

lemmas run_defs = bindS_def seqS_def ret_def raise_def liftE_def lookup_def assign_def log_def call_val_def
  call_len_def call_iter_def call_pair_def call_integrate_def dict_pop_def dict_pop_default_def
  global_attr_def val_getitem_def list_getitem_def val_slice_from_def slice_from_def Let_def init_def
  lib_ok_simps lib_failing_simps

lemma added_append: "trace s' = trace s @ evs \<Longrightarrow> added s s' = evs"
  by (simp add: added_def)

lemma integrate_refs_simps [simp]:
  "integrate_refs [] = []"
  "integrate_refs (tr @ tr') = integrate_refs tr @ integrate_refs tr'"
  "integrate_refs (Ext (Method obj ''integrate'' args kw) (Inr (TupleV [xout, yout, RefV r])) # tr)
     = r # integrate_refs tr"
  by (simp_all add: integrate_refs_def)

lemma integrate_refs_Cons: "set (integrate_refs tr) \<subseteq> set (integrate_refs (ev # tr))"
  by (simp add: integrate_refs_def)

lemma integrate_refs_later [simp]:
  "r \<in> set (integrate_refs tr) \<Longrightarrow> r \<in> set (integrate_refs (ev # tr))"
  using integrate_refs_Cons by blast

text \<open>
  Running on a given library, step by step: the same rules as equations on a state
  written out field by field.
\<close>

lemma wp_eval_call_val:
  "wp (call_val L c) Q E \<lparr>trace = tr, globals = g, heap = h, next_ref = n\<rparr> =
     (case ext_val L tr c of
        Inl e \<Rightarrow> E e \<lparr>trace = tr @ [Ext c (Inl e)], globals = g, heap = h, next_ref = n\<rparr>
      | Inr v \<Rightarrow> Q v \<lparr>trace = tr @ [Ext c (Inr v)], globals = g, heap = h, next_ref = n\<rparr>)"
  by (simp add: wp_calls wp_lookup wp_assign wp_dict_pop wp_dict_pop_default wp_liftE log_def
      split: sum.splits option.splits)

lemma wp_eval_call_len:
  "wp (call_len L c) Q E \<lparr>trace = tr, globals = g, heap = h, next_ref = n\<rparr> =
     (case ext_len L tr c of
        Inl e \<Rightarrow> E e \<lparr>trace = tr @ [Ext c (Inl e)], globals = g, heap = h, next_ref = n\<rparr>
      | Inr k \<Rightarrow> Q k \<lparr>trace = tr @ [Ext c (Inr (IntV (int k)))], globals = g, heap = h, next_ref = n\<rparr>)"
  by (simp add: wp_calls wp_lookup wp_assign wp_dict_pop wp_dict_pop_default wp_liftE log_def
      split: sum.splits option.splits)

lemma wp_eval_call_iter:
  "wp (call_iter L c) Q E \<lparr>trace = tr, globals = g, heap = h, next_ref = n\<rparr> =
     (case ext_iter L tr c of
        Inl e \<Rightarrow> E e \<lparr>trace = tr @ [Ext c (Inl e)], globals = g, heap = h, next_ref = n\<rparr>
      | Inr vs \<Rightarrow> Q vs \<lparr>trace = tr @ [Ext c (Inr (ListV vs))], globals = g, heap = h, next_ref = n\<rparr>)"
  by (simp add: wp_calls wp_lookup wp_assign wp_dict_pop wp_dict_pop_default wp_liftE log_def
      split: sum.splits option.splits)

lemma wp_eval_call_pair:
  "wp (call_pair L c) Q E \<lparr>trace = tr, globals = g, heap = h, next_ref = n\<rparr> =
     (case ext_pair L tr c of
        Inl e \<Rightarrow> E e \<lparr>trace = tr @ [Ext c (Inl e)], globals = g, heap = h, next_ref = n\<rparr>
      | Inr (a, b) \<Rightarrow> Q (a, b) \<lparr>trace = tr @ [Ext c (Inr (TupleV [a, b]))], globals = g, heap = h,
                                next_ref = n\<rparr>)"
  by (simp add: wp_calls wp_lookup wp_assign wp_dict_pop wp_dict_pop_default wp_liftE log_def
      split: sum.splits option.splits)

lemma wp_eval_call_integrate:
  "wp (call_integrate L c) Q E \<lparr>trace = tr, globals = g, heap = h, next_ref = n\<rparr> =
     (case ext_integrate L tr c of
        Inl e \<Rightarrow> E e \<lparr>trace = tr @ [Ext c (Inl e)], globals = g, heap = h, next_ref = n\<rparr>
      | Inr (x, y, m) \<Rightarrow> Q (x, y, n) \<lparr>trace = tr @ [Ext c (Inr (TupleV [x, y, RefV n]))],
                                     globals = g, heap = h(n := m), next_ref = Suc n\<rparr>)"
  by (simp add: wp_calls wp_lookup wp_assign wp_dict_pop wp_dict_pop_default wp_liftE log_def
      split: sum.splits option.splits)

lemma wp_eval_lookup:
  "wp (lookup x) Q E \<lparr>trace = tr, globals = g, heap = h, next_ref = n\<rparr> =
     (case g x of
        None \<Rightarrow> E NameError \<lparr>trace = tr @ [Raised NameError], globals = g, heap = h, next_ref = n\<rparr>
      | Some v \<Rightarrow> Q v \<lparr>trace = tr, globals = g, heap = h, next_ref = n\<rparr>)"
  by (simp add: wp_calls wp_lookup wp_assign wp_dict_pop wp_dict_pop_default wp_liftE log_def
      split: sum.splits option.splits)

lemma wp_eval_assign:
  "wp (assign x v) Q E \<lparr>trace = tr, globals = g, heap = h, next_ref = n\<rparr> =
     Q () \<lparr>trace = tr @ [Bind x], globals = g(x \<mapsto> v), heap = h, next_ref = n\<rparr>"
  by (simp add: wp_calls wp_lookup wp_assign wp_dict_pop wp_dict_pop_default wp_liftE log_def
      split: sum.splits option.splits)

lemma wp_eval_dict_pop:
  "wp (dict_pop r key) Q E \<lparr>trace = tr, globals = g, heap = h, next_ref = n\<rparr> =
     (case h r key of
        None \<Rightarrow> E KeyError \<lparr>trace = tr @ [Raised KeyError], globals = g, heap = h, next_ref = n\<rparr>
      | Some v \<Rightarrow> Q v \<lparr>trace = tr, globals = g, heap = h(r := (h r)(key := None)), next_ref = n\<rparr>)"
  by (simp add: wp_calls wp_lookup wp_assign wp_dict_pop wp_dict_pop_default wp_liftE log_def
      split: sum.splits option.splits)

lemma wp_eval_dict_pop_default:
  "wp (dict_pop_default r key d) Q E \<lparr>trace = tr, globals = g, heap = h, next_ref = n\<rparr> =
     (case h r key of None \<Rightarrow> Q d \<lparr>trace = tr, globals = g, heap = h, next_ref = n\<rparr>
      | Some v \<Rightarrow> Q v \<lparr>trace = tr, globals = g, heap = h(r := (h r)(key := None)), next_ref = n\<rparr>)"
  by (simp add: wp_calls wp_lookup wp_assign wp_dict_pop wp_dict_pop_default wp_liftE log_def
      split: sum.splits option.splits)

lemma wp_eval_liftE:
  "wp (liftE res) Q E \<lparr>trace = tr, globals = g, heap = h, next_ref = n\<rparr> =
     (case res of
        Inl e \<Rightarrow> E e \<lparr>trace = tr @ [Raised e], globals = g, heap = h, next_ref = n\<rparr>
      | Inr v \<Rightarrow> Q v \<lparr>trace = tr, globals = g, heap = h, next_ref = n\<rparr>)"
  by (simp add: wp_calls wp_lookup wp_assign wp_dict_pop wp_dict_pop_default wp_liftE log_def
      split: sum.splits option.splits)

lemma wp_eval_raise:
  "wp (raise e) Q E \<lparr>trace = tr, globals = g, heap = h, next_ref = n\<rparr> =
     E e \<lparr>trace = tr @ [Raised e], globals = g, heap = h, next_ref = n\<rparr>"
  by (simp add: log_def)

lemmas wp_eval = wp_eval_raise wp_eval_call_val wp_eval_call_len wp_eval_call_iter wp_eval_call_pair wp_eval_call_integrate
  wp_eval_lookup wp_eval_assign wp_eval_dict_pop wp_eval_dict_pop_default wp_eval_liftE

lemma wp_fst: "wp m (\<lambda>v _. Inr v = r) (\<lambda>e _. Inl e = r) s \<Longrightarrow> fst (m s) = r"
  by (auto simp: wp_def split: prod.splits sum.splits)

lemma wp_snd: "wp m (\<lambda>_. P) (\<lambda>_. P) s \<Longrightarrow> P (snd (m s))"
  by (auto simp: wp_def split: prod.splits sum.splits)

lemma init_eq: "init = \<lparr>trace = [], globals = Map.empty, heap = (\<lambda>_. Map.empty), next_ref = 0\<rparr>"
  by (simp add: init_def)

lemma demo_state_eq:
  "demo_state = \<lparr>trace = [], globals =
     [''rmsd'' \<mapsto> FunV ''rmsd'', ''ref'' \<mapsto> ListV [FloatV 1, FloatV 2, FloatV 3, FloatV 4],
      ''odesys1'' \<mapsto> ObjV 0, ''tend'' \<mapsto> IntV 25, ''y0'' \<mapsto> ListV [IntV 0, IntV 1],
      ''mu'' \<mapsto> FloatV 2.5], heap = (\<lambda>_. Map.empty), next_ref = 0\<rparr>"
  by (simp add: demo_state_def init_def)

lemmas eval_defs = wp_eval global_attr_def val_getitem_def list_getitem_def val_slice_from_def
  slice_from_def lib_ok_simps lib_failing_simps

section \<open>Exceptions are not caught\<close>

lemma ends_with_raise_single [simp]:
  "ends_with_raise [Raised e'] e \<longleftrightarrow> e' = e"
  "ends_with_raise [Ext c (Inl e')] e \<longleftrightarrow> e' = e"
  "\<not> ends_with_raise [] e"
  by (auto simp: ends_with_raise_def)

lemma ends_with_raise_append:
  "raised evs1 = [] \<Longrightarrow> ends_with_raise evs2 e \<Longrightarrow> ends_with_raise (evs1 @ evs2) e"
  by (simp add: ends_with_raise_def butlast_append)

lemma ends_with_raise_raised:
  assumes "ends_with_raise evs e"
  shows "raised evs = [e]"
proof -
  from assms have ne: "evs \<noteq> []" and "raised (butlast evs) = []" "raised [last evs] = [e]"
    by (simp_all add: ends_with_raise_def)
  then have "raised (butlast evs @ [last evs]) = [e]"
    by (simp only: raised_simps append_Nil)
  with append_butlast_last_id [OF ne] show ?thesis by simp
qed

lemma propagates_fromI:
  assumes "m s = (r, s')" and "trace s' = trace s @ evs"
    and "case r of Inl e \<Rightarrow> ends_with_raise evs e | Inr v \<Rightarrow> raised evs = []"
  shows "propagates_from m s"
  using assms by (cases r) (simp_all add: propagates_from_def added_def)

lemma propagates_fromD:
  assumes "propagates_from m s" and "m s = (r, s')"
  obtains evs where "trace s' = trace s @ evs"
    and "case r of Inl e \<Rightarrow> ends_with_raise evs e | Inr v \<Rightarrow> raised evs = []"
  using assms by (auto simp: propagates_from_def)

lemma propagates_bindS:
  assumes m: "propagates m" and g: "\<And>v. propagates (g v)"
  shows "propagates (bindS m g)"
  unfolding propagates_def
proof
  fix s
  obtain r s1 where run: "m s = (r, s1)" by (cases "m s")
  from m have "propagates_from m s" by (simp add: propagates_def)
  from propagates_fromD [OF this run] obtain evs1 where evs1: "trace s1 = trace s @ evs1"
    "case r of Inl e \<Rightarrow> ends_with_raise evs1 e | Inr v \<Rightarrow> raised evs1 = []"
    by blast
  show "propagates_from (bindS m g) s"
  proof (cases r)
    case (Inl e)
    with run have "bindS m g s = (Inl e, s1)" by (simp add: bindS_def)
    moreover note evs1(1)
    moreover from evs1(2) Inl
    have "case Inl e of Inl e \<Rightarrow> ends_with_raise evs1 e | Inr (v::'b) \<Rightarrow> raised evs1 = []"
      by simp
    ultimately show ?thesis by (rule propagates_fromI)
  next
    case (Inr v)
    obtain r2 s2 where run2: "g v s1 = (r2, s2)" by (cases "g v s1")
    from g [of v] have "propagates_from (g v) s1" by (simp add: propagates_def)
    from propagates_fromD [OF this run2] obtain evs2 where evs2: "trace s2 = trace s1 @ evs2"
      "case r2 of Inl e \<Rightarrow> ends_with_raise evs2 e | Inr v \<Rightarrow> raised evs2 = []"
      by blast
    from run Inr run2 have "bindS m g s = (r2, s2)" by (simp add: bindS_def)
    moreover from evs1 evs2 have "trace s2 = trace s @ (evs1 @ evs2)" by simp
    moreover from evs1(2) Inr evs2(2)
    have "case r2 of Inl e \<Rightarrow> ends_with_raise (evs1 @ evs2) e | Inr v \<Rightarrow> raised (evs1 @ evs2) = []"
      by (auto split: sum.splits intro: ends_with_raise_append)
    ultimately show ?thesis by (rule propagates_fromI)
  qed
qed

lemma propagatesI:
  assumes "\<And>s. \<exists>evs. trace (snd (m s)) = trace s @ evs
              \<and> (case fst (m s) of Inl e \<Rightarrow> ends_with_raise evs e | Inr v \<Rightarrow> raised evs = [])"
  shows "propagates m"
  unfolding propagates_def
proof
  fix s
  from assms [of s] obtain evs where "trace (snd (m s)) = trace s @ evs"
    "case fst (m s) of Inl e \<Rightarrow> ends_with_raise evs e | Inr v \<Rightarrow> raised evs = []"
    by blast
  with propagates_fromI [of m s "fst (m s)" "snd (m s)" evs] show "propagates_from m s"
    by simp
qed

lemma propagates_ret: "propagates (ret v)"
  by (rule propagatesI) (simp add: ret_def)

lemma propagates_raise: "propagates (raise e)"
  by (rule propagatesI) (simp add: raise_def log_def)

lemma propagates_liftE: "propagates (liftE r)"
  by (cases r) (simp_all add: liftE_def propagates_ret propagates_raise)

lemma propagates_lookup: "propagates (lookup n)"
  by (rule propagatesI) (simp add: lookup_def raise_def log_def split: option.splits)

lemma propagates_assign: "propagates (assign n v)"
  by (rule propagatesI) (simp add: assign_def log_def)

lemma propagates_dict_pop: "propagates (dict_pop r k)"
  by (rule propagatesI) (simp add: dict_pop_def raise_def log_def split: option.splits)

lemma propagates_dict_pop_default: "propagates (dict_pop_default r k d)"
  by (rule propagatesI) (simp add: dict_pop_default_def split: option.splits)

lemma propagates_call_val: "propagates (call_val L c)"
  by (rule propagatesI) (simp add: call_val_def Let_def log_def split: sum.splits)

lemma propagates_call_len: "propagates (call_len L c)"
  by (rule propagatesI) (simp add: call_len_def Let_def log_def split: sum.splits)

lemma propagates_call_iter: "propagates (call_iter L c)"
  by (rule propagatesI) (simp add: call_iter_def Let_def log_def split: sum.splits)

lemma propagates_call_pair: "propagates (call_pair L c)"
  by (rule propagatesI) (simp add: call_pair_def Let_def log_def split: sum.splits)

lemma propagates_call_integrate: "propagates (call_integrate L c)"
  by (rule propagatesI) (simp add: call_integrate_def log_def split: sum.splits prod.splits)

lemma propagates_if: "propagates m \<Longrightarrow> propagates n \<Longrightarrow> propagates (if b then m else n)"
  by simp

lemma propagates_case_prod: "(\<And>a b. propagates (g a b)) \<Longrightarrow> propagates (case_prod g p)"
  by (cases p) simp

lemma propagates_for_enumerate:
  "(\<And>i y. propagates (body i y)) \<Longrightarrow> propagates (for_enumerate idx ys body)"
  by (induction ys arbitrary: idx) (auto intro: propagates_ret propagates_bindS)

lemmas propagates_intros = propagates_bindS propagates_ret propagates_raise propagates_liftE
  propagates_lookup propagates_assign propagates_dict_pop propagates_dict_pop_default
  propagates_call_val propagates_call_len propagates_call_iter propagates_call_pair
  propagates_call_integrate propagates_if propagates_case_prod propagates_for_enumerate

lemma propagates_rmsd: "propagates (rmsd L x)"
  unfolding rmsd_def by (intro propagates_intros)

lemma propagates_integrate_and_plot:
  "propagates (integrate_and_plot L odesys integ tout y0 k interp stiff kw)"
  unfolding integrate_and_plot_def by (intro propagates_intros propagates_rmsd)

lemma propagates_solve_and_plot:
  "propagates (solve_and_plot L sparse roots nderiv interp kw)"
  unfolding solve_and_plot_def global_attr_def by (intro propagates_intros)

lemma propagates_run: "propagates m \<Longrightarrow> propagates_from m s"
  by (simp add: propagates_def)

lemma propagates_from_raised:
  assumes "propagates_from m s" and "fst (m s) = Inl e"
  shows "raised (added s (snd (m s))) = [e]"
  using assms by (auto simp: propagates_from_def split: prod.splits intro: ends_with_raise_raised)

text \<open>
  C6. No function of the notebooks handles an exception: what a callee raises is what the
  function raises. The callbacks \<open>f\<close>, \<open>vdp1\<close> and \<open>f2\<close> return exactly when all
  their subscripts are in range (and, for \<open>f2\<close>, SymPy's \<open>exp\<close> returns); what they
  raise is the IndexError of a subscript or, for \<open>f2\<close>, what \<open>exp\<close> raised. In every
  run of \<open>rmsd\<close>, \<open>integrate_and_plot\<close> and \<open>solve_and_plot\<close>, from any state and
  with any library, whatever is raised during the run ends the run there and is what
  the function raises, and the function returns only if nothing was raised: be it raised
  by a library call, by the callee \<open>rmsd\<close>, or by an operation of the function's own
  code (a global name that is not bound, a slice or a subscript, the \<^verbatim>\<open>pop\<close> of a
  key that is absent).
\<close>

theorem errors_propagate_unchanged:
  "((\<exists>r. f t x k = Inr r) \<longleftrightarrow> 4 \<le> length x \<and> 4 \<le> length k)
   \<and> (f t x k = Inl e \<longrightarrow> e = IndexError)
   \<and> ((\<exists>r. vdp1 t y p = Inr r) \<longleftrightarrow> 2 \<le> length y \<and> 1 \<le> length p)
   \<and> (vdp1 t y p = Inl e \<longrightarrow> e = IndexError)
   \<and> ((\<exists>r. f2 sp_exp t2 x2 p2 = Inr r) \<longleftrightarrow>
        2 \<le> length p2 \<and> (\<exists>w. sp_exp (- (p2 ! 1) * t2) = Inr w) \<and> x2 \<noteq> [] \<and> length x2 + 2 \<le> length p2)
   \<and> (2 \<le> length p2 \<and> sp_exp (- (p2 ! 1) * t2) = Inl e \<longrightarrow> f2 sp_exp t2 x2 p2 = Inl e)
   \<and> (f2 sp_exp t2 x2 p2 = Inl e \<longrightarrow> e = IndexError \<or> sp_exp (- (p2 ! 1) * t2) = Inl e)
   \<and> propagates_from (rmsd L v) s
   \<and> propagates_from (integrate_and_plot L odesys integrator tout y0 ks interpolate stiffness kwargs) s
   \<and> propagates_from (solve_and_plot L sparse roots nderiv interp kwargs) s"
proof -
  have exp_raises: "2 \<le> length p2 \<and> sp_exp (- (p2 ! 1) * t2) = Inl e \<longrightarrow> f2 sp_exp t2 x2 p2 = Inl e"
    by (simp add: f2_def E_defs)
  show ?thesis
    using f_returns_iff [of t x k] f_raises [of t x k e]
      vdp1_returns_iff [of t y p] vdp1_raises [of t y p e]
      f2_returns_iff [of sp_exp t2 x2 p2] f2_raises [of sp_exp t2 x2 p2 e] exp_raises
      propagates_run [OF propagates_rmsd, of L v s]
      propagates_run [OF propagates_integrate_and_plot, of L odesys integrator tout y0 ks
        interpolate stiffness kwargs s]
      propagates_run [OF propagates_solve_and_plot, of L sparse roots nderiv interp kwargs s]
    by blast
qed

theorem errors_propagate_unchanged_witness:
  "f (0::int) [1::int] [1, 2, 3, 4] = Inl IndexError
   \<and> vdp1 (0::int) [1::int] [5] = Inl IndexError
   \<and> f2 (\<lambda>v. Inl (LibError 3)) (0::int) [1, 2] [1, 2, 3, 4] = Inl (LibError 3)
   \<and> f2 (\<lambda>v. Inr v) (0::int) [1, 2] [1, 2, 3] = Inl IndexError
   \<and> fst (rmsd lib_ok (ObjV 0) init) = Inl NameError
   \<and> raised (trace (snd (rmsd lib_ok (ObjV 0) init))) = [NameError]
   \<and> fst (integrate_and_plot lib_bare (ObjV 0) (StrV ''cvode'') (FloatV 1) (ListV []) (ListV [])
            False False [] demo_state) = Inl KeyError
   \<and> raised (trace (snd (integrate_and_plot lib_bare (ObjV 0) (StrV ''cvode'') (FloatV 1) (ListV [])
            (ListV []) False False [] demo_state))) = [KeyError]
   \<and> fst (integrate_and_plot lib_ok (ObjV 0) (StrV ''cvode'') (FloatV 1) (ListV []) (ListV [])
            False False [] (demo_state\<lparr>globals := [''rmsd'' \<mapsto> FunV ''rmsd'', ''ref'' \<mapsto> IntV 3]\<rparr>))
       = Inl TypeError
   \<and> raised (trace (snd (integrate_and_plot lib_ok (ObjV 0) (StrV ''cvode'') (FloatV 1) (ListV [])
            (ListV []) False False []
            (demo_state\<lparr>globals := [''rmsd'' \<mapsto> FunV ''rmsd'', ''ref'' \<mapsto> IntV 3]\<rparr>)))) = [TypeError]
   \<and> fst (solve_and_plot (lib_failing 0 (LibError 7)) (IntV 0) NoneV 0 None []
            (init\<lparr>globals := [''odesys1'' \<mapsto> ObjV 0]\<rparr>)) = Inl (LibError 7)
   \<and> raised (trace (snd (solve_and_plot (lib_failing 0 (LibError 7)) (IntV 0) NoneV 0 None []
            (init\<lparr>globals := [''odesys1'' \<mapsto> ObjV 0]\<rparr>)))) = [LibError 7]"
proof -
  note pure = f_def vdp1_def f2_def E_defs
  define s2 where "s2 = demo_state\<lparr>globals := [''rmsd'' \<mapsto> FunV ''rmsd'', ''ref'' \<mapsto> IntV 3]\<rparr>"
  define s3 where "s3 = init\<lparr>globals := [''odesys1'' \<mapsto> ObjV 0]\<rparr>"
  have s2_eq: "s2 = \<lparr>trace = [], globals = [''rmsd'' \<mapsto> FunV ''rmsd'', ''ref'' \<mapsto> IntV 3],
      heap = (\<lambda>_. Map.empty), next_ref = 0\<rparr>"
    by (simp add: s2_def demo_state_eq)
  have s3_eq: "s3 = \<lparr>trace = [], globals = [''odesys1'' \<mapsto> ObjV 0],
      heap = (\<lambda>_. Map.empty), next_ref = 0\<rparr>"
    by (simp add: s3_def init_eq)
  have bare: "ext_integrate lib_bare tr c = Inr (ObjV 5, ObjV 6, Map.empty)"
    "ext_val lib_bare = ext_val lib_ok" "ext_len lib_bare = ext_len lib_ok"
    "ext_pair lib_bare = ext_pair lib_ok" "ext_iter lib_bare = ext_iter lib_ok" for tr c
    by (simp_all add: lib_bare_def)
  have t: "added init s' = trace s'" "added demo_state s' = trace s'" "added s2 s' = trace s'"
    "added s3 s' = trace s'" for s'
    by (simp_all add: added_def demo_state_eq init_eq s2_eq s3_eq)
  define iap where "iap L = integrate_and_plot L (ObjV 0) (StrV ''cvode'') (FloatV 1) (ListV [])
    (ListV []) False False []" for L
  define sap where "sap = solve_and_plot (lib_failing 0 (LibError 7)) (IntV 0) NoneV 0 None []"
  have a: "fst (rmsd lib_ok (ObjV 0) init) = Inl NameError"
    unfolding init_eq by (rule wp_fst) (simp add: rmsd_def eval_defs)
  have b: "fst (iap lib_bare demo_state) = Inl KeyError"
    unfolding iap_def demo_state_eq
    by (rule wp_fst) (simp add: integrate_and_plot_def rmsd_def eval_defs bare)
  have c: "fst (iap lib_ok s2) = Inl TypeError"
    unfolding iap_def s2_eq
    by (rule wp_fst) (simp add: integrate_and_plot_def rmsd_def eval_defs)
  have d: "fst (sap s3) = Inl (LibError 7)"
    unfolding sap_def s3_eq
    by (rule wp_fst) (simp add: solve_and_plot_def eval_defs)
  have A: "raised (trace (snd (rmsd lib_ok (ObjV 0) init))) = [NameError]"
  proof -
    from errors_propagate_unchanged [where t = "0::int" and x = "[1::int]" and k = "[1, 2, 3, 4]"
      and e = IndexError and y = "[1::int]" and p = "[5::int]" and sp_exp = "\<lambda>v. Inl (LibError 3)"
      and ?t2.0 = "0::int" and ?x2.0 = "[1, 2::int]" and ?p2.0 = "[1, 2, 3, 4]"
      and s = init and L = lib_ok
      and v = "ObjV 0" and odesys = "ObjV 0" and integrator = "StrV ''cvode''" and tout = "FloatV 1"
      and ?y0.0 = "ListV []" and ks = "ListV []" and interpolate = False and stiffness = False
      and kwargs = "[]" and sparse = "IntV 0" and roots = NoneV and nderiv = 0 and interp = None]
    have "propagates_from (rmsd lib_ok (ObjV 0)) init"
      by blast
    from propagates_from_raised [OF this a] show ?thesis
      by (simp add: t)
  qed
  have B: "raised (trace (snd (iap lib_bare demo_state))) = [KeyError]"
  proof -
    from errors_propagate_unchanged [where t = "0::int" and x = "[1::int]" and k = "[1, 2, 3, 4]"
      and e = IndexError and y = "[1::int]" and p = "[5::int]" and sp_exp = "\<lambda>v. Inr v"
      and ?t2.0 = "0::int" and ?x2.0 = "[1, 2::int]" and ?p2.0 = "[1, 2, 3]"
      and s = demo_state and L = lib_bare
      and v = "ObjV 0" and odesys = "ObjV 0" and integrator = "StrV ''cvode''" and tout = "FloatV 1"
      and ?y0.0 = "ListV []" and ks = "ListV []" and interpolate = False and stiffness = False
      and kwargs = "[]" and sparse = "IntV 0" and roots = NoneV and nderiv = 0 and interp = None,
      folded iap_def]
    have "propagates_from (iap lib_bare) demo_state"
      by blast
    from propagates_from_raised [OF this b] show ?thesis
      by (simp add: t)
  qed
  have C: "raised (trace (snd (iap lib_ok s2))) = [TypeError]"
  proof -
    from errors_propagate_unchanged [where t = "0::int" and x = "[1::int]" and k = "[1, 2, 3, 4]"
      and e = IndexError and y = "[1::int]" and p = "[5::int]" and sp_exp = "\<lambda>v. Inr v"
      and ?t2.0 = "0::int" and ?x2.0 = "[1, 2::int]" and ?p2.0 = "[1, 2, 3]"
      and s = s2 and L = lib_ok
      and v = "ObjV 0" and odesys = "ObjV 0" and integrator = "StrV ''cvode''" and tout = "FloatV 1"
      and ?y0.0 = "ListV []" and ks = "ListV []" and interpolate = False and stiffness = False
      and kwargs = "[]" and sparse = "IntV 0" and roots = NoneV and nderiv = 0 and interp = None,
      folded iap_def]
    have "propagates_from (iap lib_ok) s2"
      by blast
    from propagates_from_raised [OF this c] show ?thesis
      by (simp add: t)
  qed
  have D: "raised (trace (snd (sap s3))) = [LibError 7]"
  proof -
    from errors_propagate_unchanged [where t = "0::int" and x = "[1::int]" and k = "[1, 2, 3, 4]"
      and e = IndexError and y = "[1::int]" and p = "[5::int]" and sp_exp = "\<lambda>v. Inr v"
      and ?t2.0 = "0::int" and ?x2.0 = "[1, 2::int]" and ?p2.0 = "[1, 2, 3]"
      and s = s3 and L = "lib_failing 0 (LibError 7)"
      and v = "ObjV 0" and odesys = "ObjV 0" and integrator = "StrV ''cvode''" and tout = "FloatV 1"
      and ?y0.0 = "ListV []" and ks = "ListV []" and interpolate = False and stiffness = False
      and kwargs = "[]" and sparse = "IntV 0" and roots = NoneV and nderiv = 0 and interp = None,
      folded sap_def]
    have "propagates_from (sap) s3"
      by blast
    from propagates_from_raised [OF this d] show ?thesis
      by (simp add: t)
  qed
  show ?thesis
    using a b c d A B C D unfolding iap_def sap_def s2_def s3_def by (simp add: pure)
qed

section \<open>The plotting loops\<close>

text \<open>
  A loop of \<open>solve_and_plot\<close> only adds calls of \<^verbatim>\<open>plt.plot\<close> to the trace,
  and the exception of a subscript \<open>c[idx]\<close>. It returns when none of the calls
  raised; it raises what one of them raised, or the exception of the subscript.
\<close>

lemma plot_loop_run:
  assumes "for_enumerate idx rows (\<lambda>i y. bindS (liftE (val_getitem c (int i)))
             (\<lambda>ci. bindS (call_val L (mk i y ci)) (\<lambda>_. ret ()))) s = (r, s')"
  shows "\<exists>evs. trace s' = trace s @ evs \<and> heap s' = heap s \<and> next_ref s' = next_ref s
           \<and> globals s' = globals s
           \<and> (\<forall>ev \<in> set evs. (\<exists>i y ci out. ev = Ext (mk i y ci) out) \<or> (\<exists>e. ev = Raised e))
           \<and> (case r of Inr u \<Rightarrow> lib_errors evs = []
                | Inl e \<Rightarrow> lib_errors evs = [e] \<or> lib_errors evs = [] \<and> e \<in> {IndexError, TypeError})"
proof -
  define body where "body = (\<lambda>i y. bindS (liftE (val_getitem c (int i)))
             (\<lambda>ci. bindS (call_val L (mk i y ci)) (\<lambda>_. ret ())))"
  have step: "body i y s =
      (case val_getitem c (int i) of Inl e \<Rightarrow> (Inl e, log (Raised e) s)
       | Inr ci \<Rightarrow> (case ext_val L (trace s) (mk i y ci) of
            Inl e \<Rightarrow> (Inl e, log (Ext (mk i y ci) (Inl e)) s)
          | Inr v \<Rightarrow> (Inr (), log (Ext (mk i y ci) (Inr v)) s)))" for i y s
    by (simp add: body_def bindS_def liftE_def raise_def call_val_def ret_def Let_def split: sum.splits)
  have "for_enumerate idx rows body s = (r, s') \<Longrightarrow> ?thesis"
  proof (induction rows arbitrary: idx s)
    case Nil
    then show ?case by (auto simp: ret_def)
  next
    case (Cons y rows)
    from Cons.prems have run: "bindS (body idx y) (\<lambda>_. for_enumerate (Suc idx) rows body) s = (r, s')"
      by simp
    show ?case
    proof (cases "val_getitem c (int idx)")
      case (Inl e)
      with run have "r = Inl e" "s' = log (Raised e) s"
        by (auto simp: bindS_def [of "body idx y"] step)
      moreover from Inl have "e \<in> {IndexError, TypeError}"
        by (auto simp: val_getitem_def list_getitem_def split: val.splits if_splits)
      ultimately show ?thesis by auto
    next
      case ci: (Inr ci)
      show ?thesis
      proof (cases "ext_val L (trace s) (mk idx y ci)")
        case (Inl e)
        with ci run have "r = Inl e" "s' = log (Ext (mk idx y ci) (Inl e)) s"
          by (auto simp: bindS_def [of "body idx y"] step)
        then show ?thesis by auto
      next
        case (Inr v)
        let ?s1 = "log (Ext (mk idx y ci) (Inr v)) s"
        from Inr ci run have "for_enumerate (Suc idx) rows body ?s1 = (r, s')"
          by (simp add: bindS_def [of "body idx y"] step)
        from Cons.IH [OF this] obtain evs where evs: "trace s' = trace ?s1 @ evs"
          "heap s' = heap ?s1" "next_ref s' = next_ref ?s1" "globals s' = globals ?s1"
          "\<forall>ev \<in> set evs. (\<exists>i y ci out. ev = Ext (mk i y ci) out) \<or> (\<exists>e. ev = Raised e)"
          "case r of Inr u \<Rightarrow> lib_errors evs = []
                  | Inl e \<Rightarrow> lib_errors evs = [e] \<or> lib_errors evs = [] \<and> e \<in> {IndexError, TypeError}"
          by blast
        show ?thesis
        proof (intro exI [of _ "Ext (mk idx y ci) (Inr v) # evs"] conjI)
          show "\<forall>ev \<in> set (Ext (mk idx y ci) (Inr v) # evs).
                  (\<exists>i y ci out. ev = Ext (mk i y ci) out) \<or> (\<exists>e. ev = Raised e)"
            using evs(5) by auto
        qed (use evs in \<open>simp_all split: sum.splits\<close>)
      qed
    qed
  qed
  with assms show ?thesis by (simp add: body_def)
qed

lemma wp_plot_loopI:
  assumes "\<And>evs. \<forall>ev \<in> set evs. (\<exists>i y ci out. ev = Ext (mk i y ci) out) \<or> (\<exists>e. ev = Raised e) \<Longrightarrow> lib_errors evs = []
             \<Longrightarrow> Q () \<lparr>trace = tr @ evs, globals = g, heap = h, next_ref = n\<rparr>"
    and "\<And>evs e. \<forall>ev \<in> set evs. (\<exists>i y ci out. ev = Ext (mk i y ci) out) \<or> (\<exists>e. ev = Raised e)
             \<Longrightarrow> lib_errors evs = [e] \<or> lib_errors evs = [] \<and> e \<in> {IndexError, TypeError}
             \<Longrightarrow> E e \<lparr>trace = tr @ evs, globals = g, heap = h, next_ref = n\<rparr>"
  shows "wp (for_enumerate idx rows (\<lambda>i y. bindS (liftE (val_getitem c (int i)))
             (\<lambda>ci. bindS (call_val L (mk i y ci)) (\<lambda>_. ret ()))))
           Q E \<lparr>trace = tr, globals = g, heap = h, next_ref = n\<rparr>"
proof (cases "for_enumerate idx rows (\<lambda>i y. bindS (liftE (val_getitem c (int i)))
             (\<lambda>ci. bindS (call_val L (mk i y ci)) (\<lambda>_. ret ())))
           \<lparr>trace = tr, globals = g, heap = h, next_ref = n\<rparr>")
  case (Pair r s')
  from plot_loop_run [OF Pair] obtain evs where evs: "trace s' = tr @ evs"
    "heap s' = h" "next_ref s' = n" "globals s' = g"
    "\<forall>ev \<in> set evs. (\<exists>i y ci out. ev = Ext (mk i y ci) out) \<or> (\<exists>e. ev = Raised e)"
    "case r of Inr u \<Rightarrow> lib_errors evs = []
        | Inl e \<Rightarrow> lib_errors evs = [e] \<or> lib_errors evs = [] \<and> e \<in> {IndexError, TypeError}"
    by auto
  then have s': "s' = \<lparr>trace = tr @ evs, globals = g, heap = h, next_ref = n\<rparr>"
    by simp
  show ?thesis
  proof (cases r)
    case (Inl e)
    with evs assms(2) [of evs e] Pair s' show ?thesis by (simp add: wp_def)
  next
    case (Inr u)
    with evs assms(1) [of evs] Pair s' show ?thesis by (simp add: wp_def)
  qed
qed

section \<open>Events that a run adds\<close>

lemma emitsI:
  assumes "\<And>s. \<exists>evs. trace (snd (m s)) = trace s @ evs \<and> list_all P evs"
  shows "emits P m"
  using assms by (simp add: emits_def)

lemma emits_run:
  assumes "emits P m" and "m s = (r, s')"
  shows "list_all P (added s s')"
proof -
  from assms(1) obtain evs where "trace (snd (m s)) = trace s @ evs" "list_all P evs"
    unfolding emits_def by blast
  with assms(2) show ?thesis by (simp add: added_def)
qed

lemma emits_bindS:
  assumes m: "emits P m" and g: "\<And>v. emits P (g v)"
  shows "emits P (bindS m g)"
proof (rule emitsI)
  fix s
  obtain r s1 where run: "m s = (r, s1)" by (cases "m s")
  from m obtain evs1 where evs1: "trace (snd (m s)) = trace s @ evs1" "list_all P evs1"
    unfolding emits_def by blast
  show "\<exists>evs. trace (snd (bindS m g s)) = trace s @ evs \<and> list_all P evs"
  proof (cases r)
    case (Inl e)
    with run evs1 show ?thesis by (auto simp: bindS_def)
  next
    case (Inr v)
    from g [of v] obtain evs2 where evs2: "trace (snd (g v s1)) = trace s1 @ evs2" "list_all P evs2"
      unfolding emits_def by blast
    with run Inr evs1 have "trace (snd (bindS m g s)) = trace s @ (evs1 @ evs2)" "list_all P (evs1 @ evs2)"
      by (auto simp: bindS_def)
    then show ?thesis by blast
  qed
qed

lemma emits_silent:
  "emits P (ret v)" "emits P (dict_pop_default a k d)"
  by (auto simp: emits_def ret_def dict_pop_default_def split: option.splits)

lemma emits_raise: "P (Raised e) \<Longrightarrow> emits P (raise e)"
  by (simp add: emits_def raise_def log_def)

lemma emits_liftE: "(\<And>e. P (Raised e)) \<Longrightarrow> emits P (liftE r)"
  by (cases r) (simp_all add: liftE_def emits_raise emits_silent)

lemma emits_lookup: "P (Raised NameError) \<Longrightarrow> emits P (lookup n)"
  by (simp add: emits_def lookup_def raise_def log_def split: option.splits)

lemma emits_dict_pop: "P (Raised KeyError) \<Longrightarrow> emits P (dict_pop a k)"
  by (simp add: emits_def dict_pop_def raise_def log_def split: option.splits)

lemma emits_assign: "P (Bind n) \<Longrightarrow> emits P (assign n v)"
  by (simp add: emits_def assign_def log_def)

lemma emits_call_val: "(\<And>r. P (Ext c r)) \<Longrightarrow> emits P (call_val L c)"
  by (simp add: emits_def call_val_def Let_def log_def)

lemma emits_call_len: "(\<And>r. P (Ext c r)) \<Longrightarrow> emits P (call_len L c)"
  by (simp add: emits_def call_len_def Let_def log_def)

lemma emits_call_iter: "(\<And>r. P (Ext c r)) \<Longrightarrow> emits P (call_iter L c)"
  by (simp add: emits_def call_iter_def Let_def log_def)

lemma emits_call_pair: "(\<And>r. P (Ext c r)) \<Longrightarrow> emits P (call_pair L c)"
  by (simp add: emits_def call_pair_def Let_def log_def)

lemma emits_call_integrate: "(\<And>r. P (Ext c r)) \<Longrightarrow> emits P (call_integrate L c)"
  by (simp add: emits_def call_integrate_def log_def split: sum.splits)

lemma emits_if: "(b \<Longrightarrow> emits P m) \<Longrightarrow> (\<not> b \<Longrightarrow> emits P n) \<Longrightarrow> emits P (if b then m else n)"
  by simp

lemma emits_case_prod: "(\<And>a b. emits P (g a b)) \<Longrightarrow> emits P (case_prod g p)"
  by (cases p) simp

lemma emits_for_enumerate:
  "(\<And>i y. emits P (body i y)) \<Longrightarrow> emits P (for_enumerate idx ys body)"
  by (induction ys arbitrary: idx) (auto intro: emits_silent emits_bindS)

lemmas emits_intros = emits_bindS emits_silent emits_raise emits_liftE emits_lookup emits_dict_pop
  emits_assign emits_call_val emits_call_len
  emits_call_iter emits_call_pair emits_call_integrate emits_if emits_case_prod
  emits_for_enumerate

lemma emits_rmsd: "(\<And>c r. P (Ext c r)) \<Longrightarrow> (\<And>e. P (Raised e)) \<Longrightarrow> emits P (rmsd L x)"
  unfolding rmsd_def by (intro emits_intros)

section \<open>The reference comparison of solve_and_plot\<close>

lemma sap_no_reference:
  assumes "\<not> (case interp of None \<Rightarrow> nderiv > 0 | Some b \<Rightarrow> b)"
  shows "emits (\<lambda>ev. \<not> is_reference_integration ev \<and> \<not> is_error_computation ev)
           (solve_and_plot L sparse roots nderiv interp kw)"
  unfolding solve_and_plot_def global_attr_def bindS_ret
  using assms
  by (intro emits_intros; simp add: is_reference_integration_def is_error_computation_def)

lemma sap_reference:
  assumes "case interp of None \<Rightarrow> nderiv > 0 | Some b \<Rightarrow> b"
  shows "wp (solve_and_plot L sparse roots nderiv interp kw)
     (\<lambda>_ s'. (\<exists>ev \<in> set (drop (length tr0) (trace s')). is_reference_integration ev)
         \<and> (\<exists>ev \<in> set (drop (length tr0) (trace s')). is_error_computation ev))
     (\<lambda>_ _. True) \<lparr>trace = tr0, globals = g0, heap = h0, next_ref = n0\<rparr>"
  unfolding solve_and_plot_def global_attr_def
  using assms
  apply (simp only: wp_bindS wp_ret)
  apply (rule TrueI | intro wp_intros wp_plot_loopI | simp only: wp_bindS wp_ret prod.case
         | (simp add: is_reference_integration_def is_error_computation_def; fail))+
  done

lemma state_cases:
  obtains tr g h n where "s = \<lparr>trace = tr, globals = g, heap = h, next_ref = n\<rparr>"
  by (cases s) simp

text \<open>
  C4. In \<open>solve_and_plot\<close> the flag is \<open>interpolate\<close>, or \<open>nderiv > 0\<close> when
  \<open>interpolate\<close> is \<open>None\<close>. In every run, the reference integration or the
  subtraction \<open>yplot - yref\<close> is among the calls made only if the flag is true; and in
  every run that returns with the flag true, both are among the calls made.
\<close>

theorem reference_comparison_iff_interpolate:
  assumes "solve_and_plot L sparse roots nderiv interpolate kwargs s = (r, s')"
  shows "((\<exists>ev \<in> set (added s s'). is_reference_integration ev)
            \<longrightarrow> (case interpolate of None \<Rightarrow> nderiv > 0 | Some b \<Rightarrow> b))
       \<and> ((\<exists>ev \<in> set (added s s'). is_error_computation ev)
            \<longrightarrow> (case interpolate of None \<Rightarrow> nderiv > 0 | Some b \<Rightarrow> b))
       \<and> ((\<exists>v. r = Inr v) \<and> (case interpolate of None \<Rightarrow> nderiv > 0 | Some b \<Rightarrow> b)
            \<longrightarrow> (\<exists>ev \<in> set (added s s'). is_reference_integration ev)
              \<and> (\<exists>ev \<in> set (added s s'). is_error_computation ev))"
proof (cases "case interpolate of None \<Rightarrow> nderiv > 0 | Some b \<Rightarrow> b")
  case True
  obtain tr g h n where s: "s = \<lparr>trace = tr, globals = g, heap = h, next_ref = n\<rparr>"
    by (rule state_cases)
  have "(\<exists>v. r = Inr v) \<longrightarrow> (\<exists>ev \<in> set (added s s'). is_reference_integration ev)
              \<and> (\<exists>ev \<in> set (added s s'). is_error_computation ev)"
    using wp_run [OF sap_reference [OF True, where ?tr0.0 = tr and ?g0.0 = g and ?h0.0 = h and ?n0.0 = n]
        assms [unfolded s]]
    by (auto simp: added_def s)
  with True show ?thesis by simp
next
  case False
  from emits_run [OF sap_no_reference [OF False] assms]
  have "\<forall>ev \<in> set (added s s'). \<not> is_reference_integration ev \<and> \<not> is_error_computation ev"
    by (simp add: list_all_iff)
  with False show ?thesis by blast
qed

theorem reference_comparison_iff_interpolate_witness:
  "(\<exists>v. fst (solve_and_plot lib_ok (IntV (- 1)) NoneV 1 None [] demo_state) = Inr v)
   \<and> (\<exists>ev \<in> set (trace (snd (solve_and_plot lib_ok (IntV (- 1)) NoneV 1 None [] demo_state))).
         is_reference_integration ev)
   \<and> (\<exists>ev \<in> set (trace (snd (solve_and_plot lib_ok (IntV (- 1)) NoneV 1 None [] demo_state))).
         is_error_computation ev)
   \<and> filter is_reference_integration
         (trace (snd (solve_and_plot lib_ok (IntV (- 1)) NoneV 0 None [] demo_state))) = []"
proof -
  define sap where "sap nd = solve_and_plot lib_ok (IntV (- 1)) NoneV nd None [] demo_state" for nd
  have t: "added demo_state s' = trace s'" for s'
    by (simp add: added_def demo_state_eq)
  have a: "fst (sap 1) = Inr (0, ObjV 1, ObjV 2)"
    unfolding sap_def demo_state_eq
    by (rule wp_fst) (simp add: solve_and_plot_def eval_defs)
  have b: "sap nd = (fst (sap nd), snd (sap nd))" for nd
    by simp
  note one = reference_comparison_iff_interpolate [OF b [of 1, unfolded sap_def], folded sap_def]
  note zero = reference_comparison_iff_interpolate [OF b [of 0, unfolded sap_def], folded sap_def]
  from one a have "(\<exists>ev \<in> set (trace (snd (sap 1))). is_reference_integration ev)
      \<and> (\<exists>ev \<in> set (trace (snd (sap 1))). is_error_computation ev)"
    by (simp add: t)
  moreover from zero have "filter is_reference_integration (trace (snd (sap 0))) = []"
    by (simp add: t filter_empty_conv)
  ultimately show ?thesis
    using a unfolding sap_def by simp
qed

section \<open>The diagnostics mapping\<close>

lemma wp_call_integrate_absentI:
  assumes H: "\<forall>tr c x y m. ext_integrate L tr c = Inr (x, y, m) \<longrightarrow> m k1 = None \<or> m k2 = None"
  shows "(\<And>x y m. m k1 = None \<or> m k2 = None \<Longrightarrow>
      Q (x, y, n) \<lparr>trace = tr @ [Ext c (Inr (TupleV [x, y, RefV n]))], globals = g,
                   heap = h(n := m), next_ref = Suc n\<rparr>)
   \<Longrightarrow> (\<And>e. E e \<lparr>trace = tr @ [Ext c (Inl e)], globals = g, heap = h, next_ref = n\<rparr>)
   \<Longrightarrow> wp (call_integrate L c) Q E \<lparr>trace = tr, globals = g, heap = h, next_ref = n\<rparr>"
  using H by (intro wp_call_integrateI) blast+

lemma wp_call_integrate_presentI:
  assumes H: "\<forall>tr c x y m. ext_integrate L tr c = Inr (x, y, m) \<longrightarrow> m k1 \<noteq> None \<and> m k2 \<noteq> None"
  shows "(\<And>x y m. m k1 \<noteq> None \<Longrightarrow> m k2 \<noteq> None \<Longrightarrow>
      Q (x, y, n) \<lparr>trace = tr @ [Ext c (Inr (TupleV [x, y, RefV n]))], globals = g,
                   heap = h(n := m), next_ref = Suc n\<rparr>)
   \<Longrightarrow> (\<And>e. E e \<lparr>trace = tr @ [Ext c (Inl e)], globals = g, heap = h, next_ref = n\<rparr>)
   \<Longrightarrow> wp (call_integrate L c) Q E \<lparr>trace = tr, globals = g, heap = h, next_ref = n\<rparr>"
  using H by (intro wp_call_integrateI) blast+

lemmas wp_intros' = wp_call_valI wp_call_lenI wp_call_iterI wp_call_pairI
  wp_dict_popI wp_dict_pop_defaultI wp_lookupI wp_assignI wp_liftEI wp_ifI

lemma iap_keyerror:
  assumes H: "\<forall>tr c x y m. ext_integrate L tr c = Inr (x, y, m)
                \<longrightarrow> m ''internal_xout'' = None \<or> m ''internal_yout'' = None"
  shows "wp (integrate_and_plot L odesys integ tout y0 k interp stiff kw)
     (\<lambda>_ _. False)
     (\<lambda>e s'. lib_errors (drop (length tr0) (trace s')) = [] \<longrightarrow> e = KeyError)
     \<lparr>trace = tr0, globals = g0, heap = h0, next_ref = n0\<rparr>"
  unfolding integrate_and_plot_def rmsd_def
  apply (simp only: wp_bindS wp_ret)
  apply (intro wp_intros' wp_call_integrate_absentI [OF H] | simp only: wp_bindS wp_ret prod.case | (simp; fail))+
  done

lemma sap_no_keyerror:
  assumes H: "\<forall>tr c x y m. ext_integrate L tr c = Inr (x, y, m)
                \<longrightarrow> m ''internal_xout'' \<noteq> None \<and> m ''internal_yout'' \<noteq> None"
  shows "wp (solve_and_plot L sparse roots nderiv interp kw)
     (\<lambda>_ _. True)
     (\<lambda>e s'. lib_errors (drop (length tr0) (trace s')) = [] \<longrightarrow> e \<noteq> KeyError)
     \<lparr>trace = tr0, globals = g0, heap = h0, next_ref = n0\<rparr>"
  unfolding solve_and_plot_def global_attr_def
  apply (simp only: wp_bindS wp_ret)
  apply (rule TrueI | intro wp_intros' wp_plot_loopI wp_call_integrate_presentI [OF H]
      | simp only: wp_bindS wp_ret prod.case | (simp; fail) | (auto; fail))+
  done

lemma iap_pops:
  "wp (integrate_and_plot L odesys integ tout y0 k interp stiff kw)
     (\<lambda>(n, info, d) s'. heap s' info ''internal_xout'' = None
          \<and> heap s' info ''internal_yout'' = None
          \<and> info \<in> set (integrate_refs (drop (length tr0) (trace s')))
          \<and> (\<forall>a < n0. heap s' a = h0 a))
     (\<lambda>_ _. True) \<lparr>trace = tr0, globals = g0, heap = h0, next_ref = n0\<rparr>"
  unfolding integrate_and_plot_def rmsd_def
  apply (simp only: wp_bindS wp_ret)
  apply (rule TrueI | intro wp_intros | simp only: wp_bindS wp_ret prod.case | (simp; fail))+
  done

lemma sap_pops:
  "wp (solve_and_plot L sparse roots nderiv interp kw)
     (\<lambda>(info, xplot, yplot) s'. heap s' info ''root_indices'' = None
          \<and> heap s' info ''internal_xout'' = None
          \<and> heap s' info ''internal_yout'' = None
          \<and> info \<in> set (integrate_refs (drop (length tr0) (trace s')))
          \<and> (\<forall>a < n0. heap s' a = h0 a))
     (\<lambda>_ _. True) \<lparr>trace = tr0, globals = g0, heap = h0, next_ref = n0\<rparr>"
  unfolding solve_and_plot_def global_attr_def
  apply (simp only: wp_bindS wp_ret)
  apply (rule TrueI | intro wp_intros wp_plot_loopI | simp only: wp_bindS wp_ret prod.case | (simp; fail))+
  done

text \<open>
  C9. When \<open>integrate_and_plot\<close> or \<open>solve_and_plot\<close> return, the mapping they return
  is the one a call of \<^verbatim>\<open>integrate\<close> made during the run returned, the entries
  \<^verbatim>\<open>internal_xout\<close> and \<^verbatim>\<open>internal_yout\<close> have been removed from that
  very dictionary, in \<open>solve_and_plot\<close> the entry \<^verbatim>\<open>root_indices\<close> too, and
  every dictionary that existed before is unchanged. When the
  mapping that \<^verbatim>\<open>integrate\<close> returns lacks one of the two entries and no library
  call raises, \<open>integrate_and_plot\<close> raises KeyError. When the mapping has both entries
  and no library call raises, \<open>solve_and_plot\<close> raises no KeyError, whether or not
  \<^verbatim>\<open>root_indices\<close> is an entry.
\<close>

theorem diagnostics_keys_removed:
  "(integrate_and_plot L odesys integrator tout y0 k interpolate stiffness kwargs s
       = (Inr (n, info, d), s1)
     \<longrightarrow> info \<in> set (integrate_refs (added s s1))
       \<and> heap s1 info ''internal_xout'' = None \<and> heap s1 info ''internal_yout'' = None
       \<and> (\<forall>a < next_ref s. heap s1 a = heap s a))
   \<and> (solve_and_plot L sparse roots nderiv interp kwargs s = (Inr (info2, xplot, yplot), s2)
     \<longrightarrow> info2 \<in> set (integrate_refs (added s s2))
       \<and> heap s2 info2 ''root_indices'' = None
       \<and> heap s2 info2 ''internal_xout'' = None \<and> heap s2 info2 ''internal_yout'' = None
       \<and> (\<forall>a < next_ref s. heap s2 a = heap s a))
   \<and> ((\<forall>tr c x y m. ext_integrate L tr c = Inr (x, y, m)
            \<longrightarrow> m ''internal_xout'' = None \<or> m ''internal_yout'' = None)
       \<and> integrate_and_plot L odesys integrator tout y0 k interpolate stiffness kwargs s = (r3, s3)
       \<and> lib_errors (added s s3) = []
     \<longrightarrow> r3 = Inl KeyError)
   \<and> ((\<forall>tr c x y m. ext_integrate L tr c = Inr (x, y, m)
            \<longrightarrow> m ''internal_xout'' \<noteq> None \<and> m ''internal_yout'' \<noteq> None)
       \<and> solve_and_plot L sparse roots nderiv interp kwargs s = (r4, s4)
       \<and> lib_errors (added s s4) = []
     \<longrightarrow> r4 \<noteq> Inl KeyError)"
proof -
  obtain tr g h n0 where s: "s = \<lparr>trace = tr, globals = g, heap = h, next_ref = n0\<rparr>"
    by (rule state_cases)
  have a: "integrate_and_plot L odesys integrator tout y0 k interpolate stiffness kwargs s
       = (Inr (n, info, d), s1)
     \<longrightarrow> info \<in> set (integrate_refs (added s s1))
       \<and> heap s1 info ''internal_xout'' = None \<and> heap s1 info ''internal_yout'' = None
       \<and> (\<forall>a < next_ref s. heap s1 a = heap s a)"
    using wp_run [OF iap_pops [where ?tr0.0 = tr and ?g0.0 = g and ?h0.0 = h and ?n0.0 = n0],
        of L odesys integrator tout y0 k interpolate stiffness kwargs "Inr (n, info, d)" s1]
    by (simp add: added_def s)
  have b: "solve_and_plot L sparse roots nderiv interp kwargs s = (Inr (info2, xplot, yplot), s2)
     \<longrightarrow> info2 \<in> set (integrate_refs (added s s2))
       \<and> heap s2 info2 ''root_indices'' = None
       \<and> heap s2 info2 ''internal_xout'' = None \<and> heap s2 info2 ''internal_yout'' = None
       \<and> (\<forall>a < next_ref s. heap s2 a = heap s a)"
    using wp_run [OF sap_pops [where ?tr0.0 = tr and ?g0.0 = g and ?h0.0 = h and ?n0.0 = n0],
        of L sparse roots nderiv interp kwargs "Inr (info2, xplot, yplot)" s2]
    by (simp add: added_def s)
  have c: "(\<forall>tr c x y m. ext_integrate L tr c = Inr (x, y, m)
            \<longrightarrow> m ''internal_xout'' = None \<or> m ''internal_yout'' = None)
       \<and> integrate_and_plot L odesys integrator tout y0 k interpolate stiffness kwargs s = (r3, s3)
       \<and> lib_errors (added s s3) = []
     \<longrightarrow> r3 = Inl KeyError"
  proof (intro impI, elim conjE)
    assume H: "\<forall>tr c x y m. ext_integrate L tr c = Inr (x, y, m)
            \<longrightarrow> m ''internal_xout'' = None \<or> m ''internal_yout'' = None"
      and run: "integrate_and_plot L odesys integrator tout y0 k interpolate stiffness kwargs s = (r3, s3)"
      and clean: "lib_errors (added s s3) = []"
    from wp_run [OF iap_keyerror [OF H, where ?tr0.0 = tr and ?g0.0 = g and ?h0.0 = h and ?n0.0 = n0]
        run [unfolded s]] clean
    show "r3 = Inl KeyError"
      by (cases r3) (simp_all add: added_def s)
  qed
  have d: "(\<forall>tr c x y m. ext_integrate L tr c = Inr (x, y, m)
            \<longrightarrow> m ''internal_xout'' \<noteq> None \<and> m ''internal_yout'' \<noteq> None)
       \<and> solve_and_plot L sparse roots nderiv interp kwargs s = (r4, s4)
       \<and> lib_errors (added s s4) = []
     \<longrightarrow> r4 \<noteq> Inl KeyError"
  proof (intro impI, elim conjE)
    assume H: "\<forall>tr c x y m. ext_integrate L tr c = Inr (x, y, m)
            \<longrightarrow> m ''internal_xout'' \<noteq> None \<and> m ''internal_yout'' \<noteq> None"
      and run: "solve_and_plot L sparse roots nderiv interp kwargs s = (r4, s4)"
      and clean: "lib_errors (added s s4) = []"
    from wp_run [OF sap_no_keyerror [OF H, where ?tr0.0 = tr and ?g0.0 = g and ?h0.0 = h and ?n0.0 = n0]
        run [unfolded s]] clean
    show "r4 \<noteq> Inl KeyError"
      by (cases r4) (simp_all add: added_def s)
  qed
  from a b c d show ?thesis by blast
qed

theorem diagnostics_keys_removed_witness:
  "fst (integrate_and_plot lib_ok (ObjV 0) (StrV ''cvode'') (FloatV 1) (ListV []) (ListV []) False
          False [] demo_state) = Inr (4, 0, ObjV 0)
   \<and> heap (snd (integrate_and_plot lib_ok (ObjV 0) (StrV ''cvode'') (FloatV 1) (ListV []) (ListV [])
          False False [] demo_state)) 0 ''internal_xout'' = None
   \<and> fst (integrate_and_plot lib_bare (ObjV 0) (StrV ''cvode'') (FloatV 1) (ListV []) (ListV []) False
          False [] demo_state) = Inl KeyError
   \<and> fst (solve_and_plot lib_ok (IntV (- 1)) NoneV 1 None [] demo_state) = Inr (0, ObjV 1, ObjV 2)
   \<and> heap (snd (solve_and_plot lib_ok (IntV (- 1)) NoneV 1 None [] demo_state)) 0 ''internal_yout''
       = None
   \<and> fst (solve_and_plot lib_roots (IntV (- 1)) NoneV 0 None [] demo_state) = Inr (0, ObjV 1, ObjV 2)
   \<and> heap (snd (solve_and_plot lib_roots (IntV (- 1)) NoneV 0 None [] demo_state)) 0 ''root_indices''
       = None"
proof -
  define iap where "iap L = integrate_and_plot L (ObjV 0) (StrV ''cvode'') (FloatV 1) (ListV [])
    (ListV []) False False [] demo_state" for L
  define sap where "sap = solve_and_plot lib_ok (IntV (- 1)) NoneV 1 None [] demo_state"
  define sapr where "sapr = solve_and_plot lib_roots (IntV (- 1)) NoneV 0 None [] demo_state"
  have roots: "ext_integrate lib_roots tr c = Inr (ObjV 5, ObjV 6,
        [''internal_xout'' \<mapsto> ObjV 5, ''internal_yout'' \<mapsto> ObjV 6,
         ''root_indices'' \<mapsto> ListV [IntV 3]])"
    "ext_val lib_roots = ext_val lib_ok" "ext_len lib_roots = ext_len lib_ok"
    "ext_pair lib_roots = ext_pair lib_ok" "ext_iter lib_roots = ext_iter lib_ok" for tr c
    by (simp_all add: lib_roots_def)
  have r5: "fst sapr = Inr (0, ObjV 1, ObjV 2)"
    unfolding sapr_def demo_state_eq
    by (rule wp_fst) (simp add: solve_and_plot_def eval_defs roots)
  have p5: "sapr = (Inr (0, ObjV 1, ObjV 2), snd sapr)"
    using r5 by (simp add: prod_eq_iff)
  have bare: "ext_integrate lib_bare tr c = Inr (ObjV 5, ObjV 6, Map.empty)"
    "ext_val lib_bare = ext_val lib_ok" "ext_len lib_bare = ext_len lib_ok"
    "ext_pair lib_bare = ext_pair lib_ok" "ext_iter lib_bare = ext_iter lib_ok" for tr c
    by (simp_all add: lib_bare_def)
  have r1: "fst (iap lib_ok) = Inr (4, 0, ObjV 0)"
    unfolding iap_def demo_state_eq
    by (rule wp_fst) (simp add: integrate_and_plot_def rmsd_def eval_defs)
  have r2: "fst sap = Inr (0, ObjV 1, ObjV 2)"
    unfolding sap_def demo_state_eq
    by (rule wp_fst) (simp add: solve_and_plot_def eval_defs)
  have e3: "lib_errors (added demo_state (snd (iap lib_bare))) = []"
    unfolding iap_def demo_state_eq
    by (rule wp_snd [where P = "\<lambda>s'. lib_errors (added \<lparr>trace = [], globals = _, heap = _, next_ref = _\<rparr> s') = []"])
      (simp add: integrate_and_plot_def rmsd_def eval_defs bare added_def)
  have e2: "lib_errors (added demo_state (snd sap)) = []"
    unfolding sap_def demo_state_eq
    by (rule wp_snd [where P = "\<lambda>s'. lib_errors (added \<lparr>trace = [], globals = _, heap = _, next_ref = _\<rparr> s') = []"])
      (simp add: solve_and_plot_def eval_defs added_def)
  have h3: "\<forall>tr c x y m. ext_integrate lib_bare tr c = Inr (x, y, m)
            \<longrightarrow> m ''internal_xout'' = None \<or> m ''internal_yout'' = None"
    by (auto simp: bare)
  have h2: "\<forall>tr c x y m. ext_integrate lib_ok tr c = Inr (x, y, m)
            \<longrightarrow> m ''internal_xout'' \<noteq> None \<and> m ''internal_yout'' \<noteq> None"
    by (auto simp: lib_ok_simps)
  have p1: "iap lib_ok = (Inr (4, 0, ObjV 0), snd (iap lib_ok))"
    using r1 by (simp add: prod_eq_iff)
  have p2: "sap = (Inr (0, ObjV 1, ObjV 2), snd sap)"
    using r2 by (simp add: prod_eq_iff)
  have p3: "iap lib_bare = (fst (iap lib_bare), snd (iap lib_bare))"
    by simp
  note thm_ok = diagnostics_keys_removed [where L = lib_ok and s = demo_state and odesys = "ObjV 0"
      and integrator = "StrV ''cvode''" and tout = "FloatV 1" and ?y0.0 = "ListV []" and k = "ListV []"
      and interpolate = False and stiffness = False and kwargs = "[]"
      and n = 4 and info = 0 and d = "ObjV 0" and ?s1.0 = "snd (iap lib_ok)"
      and sparse = "IntV (- 1)" and roots = NoneV and nderiv = 1 and interp = None
      and ?info2.0 = 0 and xplot = "ObjV 1" and yplot = "ObjV 2" and ?s2.0 = "snd sap"
      and ?r4.0 = "Inr (0, ObjV 1, ObjV 2)" and ?s4.0 = "snd sap"
      and ?r3.0 = "Inr (4, 0, ObjV 0)" and ?s3.0 = "snd (iap lib_ok)", folded iap_def sap_def]
  note thm_bare = diagnostics_keys_removed [where L = lib_bare and s = demo_state and odesys = "ObjV 0"
      and integrator = "StrV ''cvode''" and tout = "FloatV 1" and ?y0.0 = "ListV []" and k = "ListV []"
      and interpolate = False and stiffness = False and kwargs = "[]"
      and n = 4 and info = 0 and d = "ObjV 0" and ?s1.0 = "snd (iap lib_ok)"
      and sparse = "IntV (- 1)" and roots = NoneV and nderiv = 1 and interp = None
      and ?info2.0 = 0 and xplot = "ObjV 1" and yplot = "ObjV 2" and ?s2.0 = "snd sap"
      and ?r4.0 = "Inr (0, ObjV 1, ObjV 2)" and ?s4.0 = "snd sap"
      and ?r3.0 = "fst (iap lib_bare)" and ?s3.0 = "snd (iap lib_bare)", folded iap_def]
  note thm_roots = diagnostics_keys_removed [where L = lib_roots and s = demo_state and odesys = "ObjV 0"
      and integrator = "StrV ''cvode''" and tout = "FloatV 1" and ?y0.0 = "ListV []" and k = "ListV []"
      and interpolate = False and stiffness = False and kwargs = "[]"
      and n = 4 and info = 0 and d = "ObjV 0" and ?s1.0 = "snd (iap lib_ok)"
      and sparse = "IntV (- 1)" and roots = NoneV and nderiv = 0 and interp = None
      and ?info2.0 = 0 and xplot = "ObjV 1" and yplot = "ObjV 2" and ?s2.0 = "snd sapr"
      and ?r4.0 = "Inr (0, ObjV 1, ObjV 2)" and ?s4.0 = "snd sapr"
      and ?r3.0 = "Inr (4, 0, ObjV 0)" and ?s3.0 = "snd (iap lib_ok)", folded sapr_def]
  from thm_roots p5 have e: "heap (snd sapr) 0 ''root_indices'' = None"
    by blast
  from thm_ok p1 have a: "heap (snd (iap lib_ok)) 0 ''internal_xout'' = None"
    by blast
  from thm_ok p2 have b: "heap (snd sap) 0 ''internal_yout'' = None"
    by blast
  from thm_bare p3 e3 h3 have c: "fst (iap lib_bare) = Inl KeyError"
    by blast
  from r1 a c r2 b r5 e show ?thesis
    unfolding iap_def sap_def sapr_def by simp
qed

end
